theory Spec2Isabelle
  imports Complex_Main "HOL-Library.Word"
begin

section \<open>Data model of src/main/flight/imu.c\<close>

text \<open>
  The C type \<open>float\<close> is modelled by \<open>real\<close>: every arithmetic operation is the exact
  one, rounding and the non-finite values are not represented.  Integer types keep their
  width where a value is stored (\<open>int16_t\<close>, \<open>timeUs_t\<close>).

  The struct \<open>quaternion\<close> has the fields \<open>w, x, y, z\<close>; the struct
  \<open>quaternionProducts\<close> has the same four fields and the ten pairwise products.  The
  one-letter field names are prefixed (\<open>qw\<close>, \<open>pw\<close>) because a record field is a
  global constant.
\<close>

record quaternion =
  qw :: real
  qx :: real
  qy :: real
  qz :: real

record quaternionProducts =
  pw :: real
  px :: real
  py :: real
  pz :: real
  ww :: real
  wx :: real
  wy :: real
  wz :: real
  xx :: real
  xy :: real
  xz :: real
  yy :: real
  yz :: real
  zz :: real

text \<open>Modelled from the spec: flight/imu.h, which defines the initialisers
  \<open>QUATERNION_INITIALIZE\<close> and \<open>QUATERNION_PRODUCTS_INITIALIZE\<close>, is missing; the
  specification has the identity \<open>(1, 0, 0, 0)\<close> and its product cache at boot.\<close>

definition QUATERNION_INITIALIZE :: quaternion where
  "QUATERNION_INITIALIZE = \<lparr>qw = 1, qx = 0, qy = 0, qz = 0\<rparr>"

definition QUATERNION_PRODUCTS_INITIALIZE :: quaternionProducts where
  "QUATERNION_PRODUCTS_INITIALIZE =
     \<lparr>pw = 1, px = 0, py = 0, pz = 0,
      ww = 1, wx = 0, wy = 0, wz = 0, xx = 0, xy = 0, xz = 0, yy = 0, yz = 0, zz = 0\<rparr>"

subsection \<open>Arithmetic helpers\<close>

text \<open>The macro \<open>sq(x)\<close> of common/maths.h.\<close>

definition sq :: "real \<Rightarrow> real" where
  "sq x = x * x"

text \<open>
  \<open>invSqrt\<close> (imu.c, line 149): \<open>1.0f / sqrtf(x)\<close>.  At \<open>x = 0\<close> the C code yields an
  infinity, the model yields \<open>0\<close>; statements that depend on it exclude that input.
\<close>

definition invSqrt :: "real \<Rightarrow> real" where
  "invSqrt x = 1 / sqrt x"

subsection \<open>Helpers of common/maths.h\<close>

text \<open>
  common/maths.h and common/maths.c are not among the source files.  Its constants and
  macros are written out as they are used; its functions are modelled as follows.

  Modelled from the spec: \<open>sin_approx\<close>, \<open>cos_approx\<close>, \<open>acos_approx\<close> and
  \<open>atan2_approx\<close> are missing; the specification writes \<open>sin\<close>, \<open>cos\<close>, \<open>acos\<close> and
  \<open>atan2\<close> for them, so they are the mathematical functions (\<open>acos_approx\<close> is meaningful
  on \<open>[-1, 1]\<close> only; \<open>atan2_approx y x\<close> is the angle of the point \<open>(x, y)\<close> in
  \<open>(-pi, pi]\<close>, and \<open>0\<close> at the origin).

  Modelled from the spec: \<open>scaleRangef\<close> is missing; the specification describes its use
  as "linear from 0 at 0.5 to 1 at 1.0", so it is the affine map that sends \<open>srcFrom\<close> to
  \<open>destFrom\<close> and \<open>srcTo\<close> to \<open>destTo\<close>.
\<close>

definition M_PIf :: real where
  "M_PIf = pi"

definition RAD :: real where
  "RAD = M_PIf / 180"

definition DEGREES_TO_RADIANS :: "real \<Rightarrow> real" where
  "DEGREES_TO_RADIANS angle = angle * RAD"

definition DECIDEGREES_TO_RADIANS :: "real \<Rightarrow> real" where
  "DECIDEGREES_TO_RADIANS angle = angle / 10 * RAD"

definition sin_approx :: "real \<Rightarrow> real" where
  "sin_approx x = sin x"

definition cos_approx :: "real \<Rightarrow> real" where
  "cos_approx x = cos x"

definition acos_approx :: "real \<Rightarrow> real" where
  "acos_approx x = arccos x"

definition atan2_approx :: "real \<Rightarrow> real \<Rightarrow> real" where
  "atan2_approx y x =
     (if 0 < x then arctan (y / x)
      else if x < 0 then (if 0 \<le> y then arctan (y / x) + pi else arctan (y / x) - pi)
      else if 0 < y then pi / 2
      else if y < 0 then - (pi / 2)
      else 0)"

definition scaleRangef :: "real \<Rightarrow> real \<Rightarrow> real \<Rightarrow> real \<Rightarrow> real \<Rightarrow> real" where
  "scaleRangef x srcFrom srcTo destFrom destTo =
     (let a = (destTo - destFrom) * (x - srcFrom);
          b = srcTo - srcFrom
      in a / b + destFrom)"

subsection \<open>Conversions of the C library and of the language\<close>

text \<open>\<open>lrintf\<close>: the nearest integer, a tie going to the even one (the default rounding
  mode).  The range of \<open>long\<close> is not modelled.\<close>

definition lrintf :: "real \<Rightarrow> int" where
  "lrintf x =
     (let f = \<lfloor>x\<rfloor>; d = x - of_int f
      in if d < 1 / 2 then f
         else if 1 / 2 < d then f + 1
         else if even f then f else f + 1)"

text \<open>A store into an \<open>int16_t\<close> object keeps the low sixteen bits, read as two's
  complement.\<close>

definition to_int16 :: "int \<Rightarrow> int" where
  "to_int16 i = sint (word_of_int i :: 16 word)"

text \<open>The conversion of a \<open>float\<close> to an integer type discards the fraction.\<close>

definition float_to_int :: "real \<Rightarrow> int" where
  "float_to_int x = (if 0 \<le> x then \<lfloor>x\<rfloor> else \<lceil>x\<rceil>)"

text \<open>The quotient of two \<open>int\<close>s in C truncates towards zero.\<close>

definition c_div :: "int \<Rightarrow> int \<Rightarrow> int" where
  "c_div a b = (if (a < 0) = (b < 0) then \<bar>a\<bar> div \<bar>b\<bar> else - (\<bar>a\<bar> div \<bar>b\<bar>))"

text \<open>\<open>timeUs_t\<close> is \<open>uint32_t\<close>; \<open>timeDelta_t\<close> is \<open>int32_t\<close>.\<close>

type_synonym timeUs_t = "32 word"

subsection \<open>Constants of imu.c\<close>

definition SPIN_RATE_LIMIT :: real where
  "SPIN_RATE_LIMIT = 20"

definition ATTITUDE_RESET_QUIET_TIME :: timeUs_t where
  "ATTITUDE_RESET_QUIET_TIME = 250000"

definition ATTITUDE_RESET_GYRO_LIMIT :: real where
  "ATTITUDE_RESET_GYRO_LIMIT = 15"

definition ATTITUDE_RESET_KP_GAIN :: real where
  "ATTITUDE_RESET_KP_GAIN = 25"

definition ATTITUDE_RESET_ACTIVE_TIME :: timeUs_t where
  "ATTITUDE_RESET_ACTIVE_TIME = 500000"

definition GPS_COG_MIN_GROUNDSPEED :: nat where
  "GPS_COG_MIN_GROUNDSPEED = 500"

text \<open>The axis indices \<open>X, Y, Z\<close> of common/axis.h and the stick indices \<open>ROLL, PITCH\<close>
  of fc/rc_controls.h.\<close>

abbreviation (input) axis_X :: nat where "axis_X \<equiv> 0"
abbreviation (input) axis_Y :: nat where "axis_Y \<equiv> 1"
abbreviation (input) axis_Z :: nat where "axis_Z \<equiv> 2"
abbreviation (input) ROLL :: nat where "ROLL \<equiv> 0"
abbreviation (input) PITCH :: nat where "PITCH \<equiv> 1"

subsection \<open>State\<close>

text \<open>
  A C array of fixed size is a function from the index; the code reads and writes the
  indices \<open>0 .. 2\<close> of a three-axis array and \<open>0 .. 5\<close> of a per-motor array only.
\<close>

record rotation_matrix =
  r00 :: real
  r01 :: real
  r02 :: real
  r10 :: real
  r11 :: real
  r12 :: real
  r20 :: real
  r21 :: real
  r22 :: real

text \<open>\<open>attitudeEulerAngles_t\<close>: the three \<open>int16_t\<close> members of \<open>attitude.values\<close>.\<close>

record attitudeEulerAngles_t =
  values_roll :: int
  values_pitch :: int
  values_yaw :: int

text \<open>\<open>imuRuntimeConfig_t\<close> (flight/imu.h): two floats and four unsigned integers.\<close>

record imuRuntimeConfig_t =
  dcm_ki :: real
  dcm_kp :: real
  level_recovery :: "8 word"
  level_recovery_time :: "16 word"
  level_recovery_coef :: "8 word"
  level_recovery_threshold :: "16 word"

datatype debugType_e = DEBUG_NONE | DEBUG_LYNCH | DEBUG_LYNCH_ANGLE | DEBUG_QUAT

text \<open>The file-scope objects of imu.c and the \<open>static\<close> locals of its functions (the
  latter at the end, each named as in its function).\<close>

record imu_state =
  accAverage :: "nat \<Rightarrow> real"
  levelRecoveryActive :: bool
  levelRecoveryStrength :: int
  throttleAngleScale :: real
  throttleAngleValue :: int
  smallAngleCosZ :: real
  imuRuntimeConfig :: imuRuntimeConfig_t
  rMat :: rotation_matrix
  attitudeIsEstablished :: bool
  q :: quaternion
  qP :: quaternionProducts
  qM :: "nat \<Rightarrow> quaternion"
  qPM :: "nat \<Rightarrow> quaternionProducts"
  qLM :: "nat \<Rightarrow> quaternion"
  qTM :: "nat \<Rightarrow> quaternion"
  thrust :: "nat \<Rightarrow> real"
  pitch :: "nat \<Rightarrow> real"
  roll :: "nat \<Rightarrow> real"
  anglePitch :: real
  angleRoll :: real
  qA :: quaternion
  qPA :: quaternionProducts
  qPThrustTranslation :: quaternionProducts
  headfree :: quaternion
  offset :: quaternion
  attitude :: attitudeEulerAngles_t
  translationThrustFix :: real
  debug :: "nat \<Rightarrow> int"
  integralFBx :: real
  integralFBy :: real
  integralFBz :: real
  inAngleMode :: int
  changedToAngle :: int
  motorsSetup :: int
  lastArmState :: bool
  gyroQuietPeriodTimeEnd :: timeUs_t
  attitudeResetTimeEnd :: timeUs_t
  attitudeResetCompleted :: bool
  previousCrashTime :: timeUs_t
  previousIMUUpdateTime :: timeUs_t
  initialized :: bool

text \<open>
  What the collaborators of imu.c answer during one call: the arming flag, the flight
  modes, the stick deflections, the sensors present, the GPS solution, the magnetometer
  and gyro readings, the accumulated averages, and the configured debug mode and motor.
\<close>

record imu_env =
  ARMED :: bool
  ANGLE_MODE :: bool
  HORIZON_MODE :: bool
  HEADFREE_MODE :: bool
  SET_LYNCH_MODE :: bool
  LYNCH_TRANSLATE :: bool
  getRcDeflection :: "nat \<Rightarrow> real"
  getRcDeflectionAbs :: "nat \<Rightarrow> real"
  SENSOR_ACC :: bool
  SENSOR_MAG :: bool
  SENSOR_GPS :: bool
  compassIsHealthy :: bool
  gpsRescueDisableMag :: bool
  GPS_FIX :: bool
  isFixedWing :: bool
  numSat :: "8 word"
  groundSpeed :: "16 word"
  groundCourse :: "16 word"
  magADC :: "nat \<Rightarrow> real"
  gyroADCf :: "nat \<Rightarrow> real"
  gyroGetAccumulationAverage :: "nat \<Rightarrow> real"
  accGetAccumulationAverage :: "bool \<times> (nat \<Rightarrow> real)"
  acc_1G_rec :: real
  debugMode :: debugType_e
  debugMotor :: int

text \<open>\<open>DEBUG_SET(mode, index, value)\<close> of build/debug.h: a store into the \<open>int16_t\<close>
  array \<open>debug\<close> when \<open>mode\<close> is the configured debug mode.\<close>

definition DEBUG_SET :: "imu_env \<Rightarrow> debugType_e \<Rightarrow> nat \<Rightarrow> int \<Rightarrow> imu_state \<Rightarrow> imu_state" where
  "DEBUG_SET env mode index v s =
     (if debugMode env = mode then s\<lparr>debug := (debug s)(index := to_int16 v)\<rparr> else s)"

subsection \<open>Quaternion products\<close>

text \<open>\<open>imuQuaternionComputeProducts\<close> (line 154): writes the ten products of \<open>quat\<close> into
  \<open>quatProd\<close> and leaves its \<open>w, x, y, z\<close> as they were.\<close>

definition imuQuaternionComputeProducts :: "quaternion \<Rightarrow> quaternionProducts \<Rightarrow> quaternionProducts" where
  "imuQuaternionComputeProducts quat quatProd =
     quatProd\<lparr>ww := qw quat * qw quat,
              wx := qw quat * qx quat,
              wy := qw quat * qy quat,
              wz := qw quat * qz quat,
              xx := qx quat * qx quat,
              xy := qx quat * qy quat,
              xz := qx quat * qz quat,
              yy := qy quat * qy quat,
              yz := qy quat * qz quat,
              zz := qz quat * qz quat\<rparr>"

text \<open>\<open>imuQuaternionComputeProductsProducts\<close> (line 168): the same from the cache's own
  \<open>w, x, y, z\<close>.\<close>

definition imuQuaternionComputeProductsProducts :: "quaternionProducts \<Rightarrow> quaternionProducts" where
  "imuQuaternionComputeProductsProducts quat =
     quat\<lparr>ww := pw quat * pw quat,
          wx := pw quat * px quat,
          wy := pw quat * py quat,
          wz := pw quat * pz quat,
          xx := px quat * px quat,
          xy := px quat * py quat,
          xz := px quat * pz quat,
          yy := py quat * py quat,
          yz := py quat * pz quat,
          zz := pz quat * pz quat\<rparr>"

text \<open>
  \<open>imuQuaternionMultiplicationProd\<close> (line 322).  The eight products \<open>A .. H\<close> are formed
  from \<open>q1\<close> and the \<open>w, x, y, z\<close> of the cache \<open>q2\<close>, with the operands exchanged when
  \<open>order\<close> is not 1; the four components are assembled and then scaled by
  \<open>invSqrt\<close> of their sum of squares.
\<close>

definition imuQuaternionMultiplicationProd :: "quaternion \<Rightarrow> quaternionProducts \<Rightarrow> int \<Rightarrow> quaternion" where
  "imuQuaternionMultiplicationProd q1 q2 order =
    (let A = (if order = 1 then (qw q1 + qx q1) * (pw q2 + px q2) else (pw q2 + px q2) * (qw q1 + qx q1));
         B = (if order = 1 then (qz q1 - qy q1) * (py q2 - pz q2) else (pz q2 - py q2) * (qy q1 - qz q1));
         C = (if order = 1 then (qw q1 - qx q1) * (py q2 + pz q2) else (pw q2 - px q2) * (qy q1 + qz q1));
         D = (if order = 1 then (qy q1 + qz q1) * (pw q2 - px q2) else (py q2 + pz q2) * (qw q1 - qx q1));
         E = (if order = 1 then (qx q1 + qz q1) * (px q2 + py q2) else (px q2 + pz q2) * (qx q1 + qy q1));
         F = (if order = 1 then (qx q1 - qz q1) * (px q2 - py q2) else (px q2 - pz q2) * (qx q1 - qy q1));
         G = (if order = 1 then (qw q1 + qy q1) * (pw q2 - pz q2) else (pw q2 + py q2) * (qw q1 - qz q1));
         H = (if order = 1 then (qw q1 - qy q1) * (pw q2 + pz q2) else (pw q2 - py q2) * (qw q1 + qz q1));
         rw = B + (- E - F + G + H) / 2;
         rx = A - (E + F + G + H) / 2;
         ry = C + (E - F + G - H) / 2;
         rz = D + (E - F - G + H) / 2;
         recipNorm = invSqrt (sq rw + sq rx + sq ry + sq rz)
     in \<lparr>qw = rw * recipNorm, qx = rx * recipNorm, qy = ry * recipNorm, qz = rz * recipNorm\<rparr>)"

text \<open>\<open>imuQuaternionMultiplication\<close> (line 815): the same eight products of two
  quaternions; the four components are stored as assembled.\<close>

definition imuQuaternionMultiplication :: "quaternion \<Rightarrow> quaternion \<Rightarrow> quaternion" where
  "imuQuaternionMultiplication q1 q2 =
    (let A = (qw q1 + qx q1) * (qw q2 + qx q2);
         B = (qz q1 - qy q1) * (qy q2 - qz q2);
         C = (qw q1 - qx q1) * (qy q2 + qz q2);
         D = (qy q1 + qz q1) * (qw q2 - qx q2);
         E = (qx q1 + qz q1) * (qx q2 + qy q2);
         F = (qx q1 - qz q1) * (qx q2 - qy q2);
         G = (qw q1 + qy q1) * (qw q2 - qz q2);
         H = (qw q1 - qy q1) * (qw q2 + qz q2)
     in \<lparr>qw = B + (- E - F + G + H) / 2,
         qx = A - (E + F + G + H) / 2,
         qy = C + (E - F + G - H) / 2,
         qz = D + (E - F - G + H) / 2\<rparr>)"

subsection \<open>Rotation matrix\<close>

text \<open>\<open>imuComputeRotationMatrix\<close> (line 182), in a build that is not the simulator's: the
  product cache \<open>qP\<close> is first recomputed from \<open>q\<close>, then \<open>rMat\<close> is filled from it.\<close>

definition imuComputeRotationMatrix :: "imu_state \<Rightarrow> imu_state" where
  "imuComputeRotationMatrix s =
    (let c = imuQuaternionComputeProducts (q s) (qP s)
     in s\<lparr>qP := c,
          rMat := \<lparr>r00 = 1 - 2 * yy c - 2 * zz c,
                   r01 = 2 * (xy c + - wz c),
                   r02 = 2 * (xz c - - wy c),
                   r10 = 2 * (xy c - - wz c),
                   r11 = 1 - 2 * xx c - 2 * zz c,
                   r12 = 2 * (yz c + - wx c),
                   r20 = 2 * (xz c + - wy c),
                   r21 = 2 * (yz c - - wx c),
                   r22 = 1 - 2 * xx c - 2 * yy c\<rparr>\<rparr>)"

text \<open>\<open>getCosTiltAngle\<close> (line 968).\<close>

definition getCosTiltAngle :: "imu_state \<Rightarrow> real" where
  "getCosTiltAngle s = r22 (rMat s)"

text \<open>\<open>calculateThrottleAngleScale\<close> (line 211), of a \<open>uint16_t\<close>.\<close>

definition calculateThrottleAngleScale :: "16 word \<Rightarrow> real" where
  "calculateThrottleAngleScale throttle_correction_angle =
     (1800 / M_PIf) * (900 / real (unat throttle_correction_angle))"

subsection \<open>Quaternions from Euler angles\<close>

text \<open>The first lines of the three constructors: an \<open>int16_t\<close> angle above 1800 is
  lowered by 3600.\<close>

definition wrap_1800 :: "int \<Rightarrow> int" where
  "wrap_1800 a = (if 1800 < a then to_int16 (a - 3600) else a)"

text \<open>\<open>imuComputeMotorQuatOffset\<close> (line 216).  The parameters are \<open>int16_t\<close>.  It writes
  \<open>x, y, z, w\<close> and six of the products of \<open>quatProd\<close>, not \<open>ww, xx, yy, zz\<close>.\<close>

definition imuComputeMotorQuatOffset :: "quaternionProducts \<Rightarrow> int \<Rightarrow> int \<Rightarrow> int \<Rightarrow> quaternionProducts" where
  "imuComputeMotorQuatOffset quatProd initialRoll0 initialPitch0 initialYaw0 =
    (let initialRoll = wrap_1800 initialRoll0;
         initialPitch = wrap_1800 initialPitch0;
         initialYaw = wrap_1800 initialYaw0;
         cosRoll = cos_approx (DECIDEGREES_TO_RADIANS (of_int initialRoll) * 0.5);
         sinRoll = sin_approx (DECIDEGREES_TO_RADIANS (of_int initialRoll) * 0.5);
         cosPitch = cos_approx (DECIDEGREES_TO_RADIANS (of_int initialPitch) * 0.5);
         sinPitch = sin_approx (DECIDEGREES_TO_RADIANS (of_int initialPitch) * 0.5);
         cosYaw = cos_approx (DECIDEGREES_TO_RADIANS (of_int (- initialYaw)) * 0.5);
         sinYaw = sin_approx (DECIDEGREES_TO_RADIANS (of_int (- initialYaw)) * 0.5);
         a0 = cosRoll * cosPitch * cosYaw + sinRoll * sinPitch * sinYaw;
         a1 = sinRoll * cosPitch * cosYaw - cosRoll * sinPitch * sinYaw;
         a2 = cosRoll * sinPitch * cosYaw + sinRoll * cosPitch * sinYaw;
         a3 = cosRoll * cosPitch * sinYaw - sinRoll * sinPitch * cosYaw;
         recipNorm = invSqrt (sq a0 + sq a1 + sq a2 + sq a3);
         q0 = a0 * recipNorm;
         q1 = a1 * recipNorm;
         q2 = a2 * recipNorm;
         q3 = a3 * recipNorm
     in quatProd\<lparr>px := q1, py := q2, pz := q3, pw := q0,
                  xy := q1 * q2, xz := q1 * q3, yz := q2 * q3,
                  wx := q0 * q1, wy := q0 * q2, wz := q0 * q3\<rparr>)"

text \<open>\<open>imuComputeRemoveYaw\<close> (line 264): the cache is multiplied, in the eight-product
  form, by the quaternion of the negated yaw, normalised, and six of its products are
  refreshed.\<close>

definition imuComputeRemoveYaw :: "quaternionProducts \<Rightarrow> int \<Rightarrow> quaternionProducts" where
  "imuComputeRemoveYaw quatProd initialYaw0 =
    (let initialYaw = wrap_1800 initialYaw0;
         cosRoll = 1;
         sinRoll = 0;
         cosPitch = 1;
         sinPitch = 0;
         cosYaw = cos_approx (DECIDEGREES_TO_RADIANS (of_int (- initialYaw)) * 0.5);
         sinYaw = sin_approx (DECIDEGREES_TO_RADIANS (of_int (- initialYaw)) * 0.5);
         a0 = cosRoll * cosPitch * cosYaw + sinRoll * sinPitch * sinYaw;
         a1 = sinRoll * cosPitch * cosYaw - cosRoll * sinPitch * sinYaw;
         a2 = cosRoll * sinPitch * cosYaw + sinRoll * cosPitch * sinYaw;
         a3 = cosRoll * cosPitch * sinYaw - sinRoll * sinPitch * cosYaw;
         recipNorm0 = invSqrt (sq a0 + sq a1 + sq a2 + sq a3);
         q0 = a0 * recipNorm0;
         q1 = a1 * recipNorm0;
         q2 = a2 * recipNorm0;
         q3 = a3 * recipNorm0;
         A = (pw quatProd + px quatProd) * (q0 + q1);
         B = (pz quatProd - py quatProd) * (q2 - q3);
         C = (pw quatProd - px quatProd) * (q2 + q3);
         D = (py quatProd + pz quatProd) * (q0 - q1);
         E = (px quatProd + pz quatProd) * (q1 + q2);
         F = (px quatProd - pz quatProd) * (q1 - q2);
         G = (pw quatProd + py quatProd) * (q0 - q3);
         H = (pw quatProd - py quatProd) * (q0 + q3);
         w1 = B + (- E - F + G + H) / 2;
         x1 = A - (E + F + G + H) / 2;
         y1 = C + (E - F + G - H) / 2;
         z1 = D + (E - F - G + H) / 2;
         recipNorm = invSqrt (sq w1 + sq x1 + sq y1 + sq z1);
         w2 = w1 * recipNorm;
         x2 = x1 * recipNorm;
         y2 = y1 * recipNorm;
         z2 = z1 * recipNorm
     in quatProd\<lparr>pw := w2, px := x2, py := y2, pz := z2,
                  xy := x2 * y2, xz := x2 * z2, yz := y2 * z2,
                  wx := w2 * x2, wy := w2 * y2, wz := w2 * z2\<rparr>)"

text \<open>
  \<open>imuComputeQuaternionFromRPY\<close> (line 769).  Its only caller passes \<open>&qP\<close>, so the
  parameter \<open>quatProd\<close> is the object \<open>qP\<close> of the state: nine products are stored into
  it, then \<open>imuComputeRotationMatrix\<close> runs on that state.
\<close>

definition imuComputeQuaternionFromRPY :: "imu_state \<Rightarrow> int \<Rightarrow> int \<Rightarrow> int \<Rightarrow> imu_state" where
  "imuComputeQuaternionFromRPY s initialRoll0 initialPitch0 initialYaw0 =
    (let initialRoll = wrap_1800 initialRoll0;
         initialPitch = wrap_1800 initialPitch0;
         initialYaw = wrap_1800 initialYaw0;
         cosRoll = cos_approx (DECIDEGREES_TO_RADIANS (of_int initialRoll) * 0.5);
         sinRoll = sin_approx (DECIDEGREES_TO_RADIANS (of_int initialRoll) * 0.5);
         cosPitch = cos_approx (DECIDEGREES_TO_RADIANS (of_int initialPitch) * 0.5);
         sinPitch = sin_approx (DECIDEGREES_TO_RADIANS (of_int initialPitch) * 0.5);
         cosYaw = cos_approx (DECIDEGREES_TO_RADIANS (of_int (- initialYaw)) * 0.5);
         sinYaw = sin_approx (DECIDEGREES_TO_RADIANS (of_int (- initialYaw)) * 0.5);
         q0 = cosRoll * cosPitch * cosYaw + sinRoll * sinPitch * sinYaw;
         q1 = sinRoll * cosPitch * cosYaw - cosRoll * sinPitch * sinYaw;
         q2 = cosRoll * sinPitch * cosYaw + sinRoll * cosPitch * sinYaw;
         q3 = cosRoll * cosPitch * sinYaw - sinRoll * sinPitch * cosYaw;
         s1 = s\<lparr>qP := (qP s)\<lparr>xx := sq q1, yy := sq q2, zz := sq q3,
                               xy := q1 * q2, xz := q1 * q3, yz := q2 * q3,
                               wx := q0 * q1, wy := q0 * q2, wz := q0 * q3\<rparr>\<rparr>;
         s2 = imuComputeRotationMatrix s1
     in s2\<lparr>attitudeIsEstablished := True\<rparr>)"

text \<open>\<open>shouldInitializeGPSHeading\<close> (line 955): true on its first call only.\<close>

definition shouldInitializeGPSHeading :: "imu_state \<Rightarrow> bool \<times> imu_state" where
  "shouldInitializeGPSHeading s =
     (if \<not> initialized s then (True, s\<lparr>initialized := True\<rparr>) else (False, s))"

subsection \<open>The Mahony update\<close>

text \<open>The two \<open>while\<close> loops at the head of \<open>imuMahonyAHRSupdate\<close> (lines 414 and 418),
  which bring the course over ground down to at most \<open>M_PIf\<close> and then up to at least
  \<open>- M_PIf\<close>, a turn at a time.\<close>

function courseOverGround_down :: "real \<Rightarrow> real" where
  "courseOverGround_down c = (if M_PIf < c then courseOverGround_down (c - 2 * M_PIf) else c)"
  by pat_completeness auto
termination
proof (relation "measure (\<lambda>c. nat \<lceil>c\<rceil>)")
  show "wf (measure (\<lambda>c. nat \<lceil>c\<rceil>))"
    by simp
next
  fix c :: real
  assume a: "M_PIf < c"
  have "c - 2 * pi \<le> c - 1"
    using pi_ge_two by simp
  then have "\<lceil>c - 2 * pi\<rceil> \<le> \<lceil>c - 1\<rceil>"
    by (rule ceiling_mono)
  moreover have "0 < \<lceil>c\<rceil>"
    using a pi_ge_two by (simp add: M_PIf_def)
  ultimately show "(c - 2 * M_PIf, c) \<in> measure (\<lambda>c. nat \<lceil>c\<rceil>)"
    by (simp add: M_PIf_def)
qed

function courseOverGround_up :: "real \<Rightarrow> real" where
  "courseOverGround_up c = (if c < - M_PIf then courseOverGround_up (c + 2 * M_PIf) else c)"
  by pat_completeness auto
termination
proof (relation "measure (\<lambda>c. nat \<lceil>- c\<rceil>)")
  show "wf (measure (\<lambda>c. nat \<lceil>- c\<rceil>))"
    by simp
next
  fix c :: real
  assume a: "c < - M_PIf"
  have "- (c + 2 * pi) \<le> - c - 1"
    using pi_ge_two by simp
  then have "\<lceil>- (c + 2 * pi)\<rceil> \<le> \<lceil>- c - 1\<rceil>"
    by (rule ceiling_mono)
  moreover have "0 < \<lceil>- c\<rceil>"
    using a pi_ge_two by (simp add: M_PIf_def)
  ultimately show "(c + 2 * M_PIf, c) \<in> measure (\<lambda>c. nat \<lceil>- c\<rceil>)"
    by (simp add: M_PIf_def)
qed

text \<open>The two equations are unfolded by hand only: each rewrites a call into one of
  itself.\<close>

declare courseOverGround_down.simps [simp del]

declare courseOverGround_up.simps [simp del]

text \<open>
  The error vector \<open>(ex, ey, ez)\<close> that \<open>imuMahonyAHRSupdate\<close> builds (lines 411 to 476),
  in a build with \<open>USE_MAG\<close>: the heading error of the course over ground, of the
  magnetometer, and the cross product with the measured gravity.  A \<open>float\<close> used as a
  condition (\<open>useAcc\<close>) is true when it is not zero.
\<close>

definition imuMahonyAHRSupdate_error ::
  "imu_state \<Rightarrow> imu_env \<Rightarrow> real \<Rightarrow> real \<Rightarrow> real \<Rightarrow> real \<Rightarrow> bool \<Rightarrow> bool \<Rightarrow> real \<Rightarrow> real \<times> real \<times> real" where
  "imuMahonyAHRSupdate_error s env useAcc ax ay az useMag useCOG courseOverGround0 =
    (let R = rMat s;
         (ex0, ey0, ez0) =
           (if useCOG then
              (let courseOverGround = courseOverGround_up (courseOverGround_down courseOverGround0);
                   ez_ef = - sin_approx courseOverGround * r00 R - cos_approx courseOverGround * r10 R
               in (r20 R * ez_ef, r21 R * ez_ef, r22 R * ez_ef))
            else (0, 0, 0));
         mx = magADC env axis_X;
         my = magADC env axis_Y;
         mz = magADC env axis_Z;
         recipMagNorm = sq mx + sq my + sq mz;
         (ex1, ey1, ez1) =
           (if useMag \<and> 0.01 < recipMagNorm then
              (let recipMagNorm1 = invSqrt recipMagNorm;
                   mx1 = mx * recipMagNorm1;
                   my1 = my * recipMagNorm1;
                   mz1 = mz * recipMagNorm1;
                   hx = r00 R * mx1 + r01 R * my1 + r02 R * mz1;
                   hy = r10 R * mx1 + r11 R * my1 + r12 R * mz1;
                   bx = sqrt (hx * hx + hy * hy);
                   ez_ef = - (hy * bx)
               in (ex0 + r20 R * ez_ef, ey0 + r21 R * ez_ef, ez0 + r22 R * ez_ef))
            else (ex0, ey0, ez0));
         recipAccNorm = sq ax + sq ay + sq az
     in if useAcc \<noteq> 0 \<and> 0.01 < recipAccNorm then
          (let recipAccNorm1 = invSqrt recipAccNorm;
               ax1 = ax * recipAccNorm1;
               ay1 = ay * recipAccNorm1;
               az1 = az * recipAccNorm1
           in (ex1 + (ay1 * r22 R - az1 * r21 R) * useAcc,
               ey1 + (az1 * r20 R - ax1 * r22 R) * useAcc,
               ez1 + (ax1 * r21 R - ay1 * r20 R) * useAcc))
        else (ex1, ey1, ez1))"

text \<open>The integral feedback of \<open>imuMahonyAHRSupdate\<close> (lines 478 to 491), given the spin
  rate and the error vector.\<close>

definition imuMahonyAHRSupdate_feedback ::
  "imu_state \<Rightarrow> real \<Rightarrow> real \<times> real \<times> real \<Rightarrow> real \<Rightarrow> real \<Rightarrow> imu_state" where
  "imuMahonyAHRSupdate_feedback s spin_rate e dt useAcc =
    (case e of (ex, ey, ez) \<Rightarrow>
       if 0 < dcm_ki (imuRuntimeConfig s) then
         (if spin_rate < DEGREES_TO_RADIANS SPIN_RATE_LIMIT then
            (let dcmKiGain = dcm_ki (imuRuntimeConfig s)
             in s\<lparr>integralFBx := integralFBx s + dcmKiGain * ex * dt * useAcc,
                  integralFBy := integralFBy s + dcmKiGain * ey * dt * useAcc,
                  integralFBz := integralFBz s + dcmKiGain * ez * dt * useAcc\<rparr>)
          else s)
       else s\<lparr>integralFBx := 0, integralFBy := 0, integralFBz := 0\<rparr>)"

text \<open>The rest of \<open>imuMahonyAHRSupdate\<close> (lines 493 to 524): the proportional and
  integral feedback are added to the rates, the quaternion is integrated and normalised,
  the rotation matrix is computed and the attitude is marked as established.\<close>

definition imuMahonyAHRSupdate_integrate ::
  "imu_state \<Rightarrow> real \<Rightarrow> real \<Rightarrow> real \<Rightarrow> real \<Rightarrow> real \<Rightarrow> real \<times> real \<times> real \<Rightarrow> real \<Rightarrow> imu_state" where
  "imuMahonyAHRSupdate_integrate s dt gx gy gz useAcc e dcmKpGain =
    (case e of (ex, ey, ez) \<Rightarrow>
      (let gx1 = (gx + (dcmKpGain * ex * useAcc + integralFBx s)) * (0.5 * dt);
           gy1 = (gy + (dcmKpGain * ey * useAcc + integralFBy s)) * (0.5 * dt);
           gz1 = (gz + (dcmKpGain * ez * useAcc + integralFBz s)) * (0.5 * dt);
           buffer = q s;
           w1 = qw buffer + (- qx buffer * gx1 - qy buffer * gy1 - qz buffer * gz1);
           x1 = qx buffer + (qw buffer * gx1 + qy buffer * gz1 - qz buffer * gy1);
           y1 = qy buffer + (qw buffer * gy1 - qx buffer * gz1 + qz buffer * gx1);
           z1 = qz buffer + (qw buffer * gz1 + qx buffer * gy1 - qy buffer * gx1);
           recipNorm = invSqrt (sq w1 + sq x1 + sq y1 + sq z1);
           s2 = s\<lparr>q := \<lparr>qw = w1 * recipNorm, qx = x1 * recipNorm,
                         qy = y1 * recipNorm, qz = z1 * recipNorm\<rparr>\<rparr>;
           s3 = imuComputeRotationMatrix s2
       in s3\<lparr>attitudeIsEstablished := True\<rparr>))"

text \<open>
  \<open>imuMahonyAHRSupdate\<close> (line 400): the spin rate of the incoming rates, the error
  vector, the integral feedback, and the integration.
\<close>

definition imuMahonyAHRSupdate ::
  "imu_state \<Rightarrow> imu_env \<Rightarrow> real \<Rightarrow> real \<Rightarrow> real \<Rightarrow> real \<Rightarrow> real \<Rightarrow> real \<Rightarrow> real \<Rightarrow> real \<Rightarrow> bool \<Rightarrow> bool \<Rightarrow> real \<Rightarrow> real \<Rightarrow> imu_state" where
  "imuMahonyAHRSupdate s env dt gx gy gz useAcc ax ay az useMag useCOG courseOverGround dcmKpGain =
    (let spin_rate = sqrt (sq gx + sq gy + sq gz);
         e = imuMahonyAHRSupdate_error s env useAcc ax ay az useMag useCOG courseOverGround;
         s1 = imuMahonyAHRSupdate_feedback s spin_rate e dt useAcc
     in imuMahonyAHRSupdate_integrate s1 dt gx gy gz useAcc e dcmKpGain)"

subsection \<open>Accelerometer health\<close>

text \<open>\<open>imuIsAccelerometerHealthy\<close> (line 642), given the array and \<open>acc.dev.acc_1G_rec\<close>.\<close>

definition imuIsAccelerometerHealthy :: "(nat \<Rightarrow> real) \<Rightarrow> real \<Rightarrow> real" where
  "imuIsAccelerometerHealthy accAverage_arg acc_1G_rec_arg =
    (let accMagnitudeSq0 = fold (\<lambda>axis m. let a = accAverage_arg axis in m + a * a) [0..<3] 0;
         accMagnitudeSq = accMagnitudeSq0 * sq acc_1G_rec_arg
     in if 0.5 < accMagnitudeSq \<and> accMagnitudeSq < 1.69 then
          (if 1.0 < accMagnitudeSq then scaleRangef accMagnitudeSq 0.5 1.0 0.0 1.0
           else scaleRangef accMagnitudeSq 1.0 1.69 1.0 0.0)
        else 0)"

subsection \<open>The gain scheduler\<close>

text \<open>
  The part of \<open>imuCalcKpGain\<close> that runs its attitude-reset machine (lines 679 to 715).
  It returns the local \<open>attitudeResetActive\<close> and the state with the four \<open>static\<close>
  variables updated.
\<close>

definition imuCalcKpGain_reset :: "imu_state \<Rightarrow> imu_env \<Rightarrow> timeUs_t \<Rightarrow> real \<Rightarrow> (nat \<Rightarrow> real) \<Rightarrow> bool \<times> imu_state" where
  "imuCalcKpGain_reset s env currentTimeUs useAcc gyroAverage =
    (let armState = ARMED env;
         s1 = (if \<not> armState \<and> lastArmState s then
                 s\<lparr>gyroQuietPeriodTimeEnd := currentTimeUs + ATTITUDE_RESET_QUIET_TIME,
                   attitudeResetTimeEnd := 0,
                   attitudeResetCompleted := False\<rparr>
               else s);
         s2 = (if \<not> armState
                  \<and> (0 < attitudeResetTimeEnd s1 \<or> 0 < gyroQuietPeriodTimeEnd s1 \<or> attitudeResetCompleted s1)
                  \<and> (ATTITUDE_RESET_GYRO_LIMIT < \<bar>gyroAverage axis_X\<bar>
                      \<or> ATTITUDE_RESET_GYRO_LIMIT < \<bar>gyroAverage axis_Y\<bar>
                      \<or> ATTITUDE_RESET_GYRO_LIMIT < \<bar>gyroAverage axis_Z\<bar>
                      \<or> useAcc = 0) then
                 s1\<lparr>gyroQuietPeriodTimeEnd := currentTimeUs + ATTITUDE_RESET_QUIET_TIME,
                    attitudeResetTimeEnd := 0\<rparr>
               else s1);
         (attitudeResetActive, s3) =
           (if \<not> armState then
              (if 0 < attitudeResetTimeEnd s2 then
                 (if attitudeResetTimeEnd s2 \<le> currentTimeUs then
                    (False, s2\<lparr>gyroQuietPeriodTimeEnd := 0,
                               attitudeResetTimeEnd := 0,
                               attitudeResetCompleted := True\<rparr>)
                  else (True, s2))
               else if 0 < gyroQuietPeriodTimeEnd s2 \<and> gyroQuietPeriodTimeEnd s2 \<le> currentTimeUs then
                 (False, s2\<lparr>attitudeResetTimeEnd := currentTimeUs + ATTITUDE_RESET_ACTIVE_TIME,
                            gyroQuietPeriodTimeEnd := 0\<rparr>)
               else (False, s2))
            else (False, s2))
     in (attitudeResetActive, s3\<lparr>lastArmState := armState\<rparr>))"

text \<open>
  \<open>imuCalcKpGain\<close> (line 670).  In the level-recovery gain the product of the
  \<open>uint8_t\<close> coefficient and the \<open>int\<close> strength is an \<open>int\<close>, and so is its quotient by
  1000; the sum with \<open>1.0f\<close> is the first \<open>float\<close>.
\<close>

definition imuCalcKpGain :: "imu_state \<Rightarrow> imu_env \<Rightarrow> timeUs_t \<Rightarrow> real \<Rightarrow> (nat \<Rightarrow> real) \<Rightarrow> real \<times> imu_state" where
  "imuCalcKpGain s env currentTimeUs useAcc gyroAverage =
    (let armState = ARMED env;
         (attitudeResetActive, s1) = imuCalcKpGain_reset s env currentTimeUs useAcc gyroAverage;
         ret0 = (if attitudeResetActive then ATTITUDE_RESET_KP_GAIN
                 else if \<not> armState then dcm_kp (imuRuntimeConfig s1) * 10
                 else dcm_kp (imuRuntimeConfig s1));
         ret = (if levelRecoveryActive s1 then
                  dcm_kp (imuRuntimeConfig s1)
                    * (1 + of_int (c_div (uint (level_recovery_coef (imuRuntimeConfig s1)) * levelRecoveryStrength s1) 1000))
                else ret0)
     in (ret, s1))"

text \<open>
  \<open>imuHandleLevelRecovery\<close> (line 733).  \<open>level_recovery_time * 1000\<close> is an \<open>int\<close>; it is
  converted to \<open>uint32_t\<close> where it meets \<open>elapsedSinceCrash\<close>, and the quotient is an
  unsigned one.
\<close>

definition imuHandleLevelRecovery :: "imu_state \<Rightarrow> imu_env \<Rightarrow> timeUs_t \<Rightarrow> imu_state" where
  "imuHandleLevelRecovery s env currentTimeUs =
    (let threshold = real (unat (level_recovery_threshold (imuRuntimeConfig s)));
         s1 = fold (\<lambda>i st. if threshold < \<bar>gyroADCf env i\<bar> then st\<lparr>previousCrashTime := currentTimeUs\<rparr> else st)
                   [0..<3] s;
         elapsedSinceCrash = currentTimeUs - previousCrashTime s1;
         time = (of_nat (unat (level_recovery_time (imuRuntimeConfig s1))) :: 32 word);
         window = (of_nat (unat (level_recovery_time (imuRuntimeConfig s1)) * 1000) :: 32 word);
         s2 = (if elapsedSinceCrash < window then
                 (let strength0 = uint ((window - elapsedSinceCrash) div time);
                      strength1 = strength0 * 2
                  in s1\<lparr>levelRecoveryActive := True,
                        levelRecoveryStrength := (if 1000 < strength1 then 1000 else strength1)\<rparr>)
               else s1\<lparr>levelRecoveryActive := False, levelRecoveryStrength := 0\<rparr>)
     in if \<not> ARMED env then s2\<lparr>levelRecoveryActive := False, levelRecoveryStrength := 0\<rparr> else s2)"

subsection \<open>Derived outputs\<close>

text \<open>\<open>setNewLevel\<close> (line 527).\<close>

definition setNewLevel :: "imu_state \<Rightarrow> imu_env \<Rightarrow> imu_state" where
  "setNewLevel s env =
    (if (ANGLE_MODE env \<and> inAngleMode s = 0)
        \<or> (ANGLE_MODE env \<and> SET_LYNCH_MODE env
            \<and> (0.1 < getRcDeflectionAbs env ROLL \<or> 0.1 < getRcDeflectionAbs env PITCH)) then
       (let c0 = (qPA s)\<lparr>pw := qw (q s), px := - qx (q s), py := - qy (q s), pz := - qz (q s)\<rparr>;
            c1 = imuQuaternionComputeProductsProducts c0;
            c2 = imuComputeRemoveYaw c1 (values_yaw (attitude s))
        in s\<lparr>inAngleMode := 1, qPA := c2\<rparr>)
     else if \<not> ANGLE_MODE env then s\<lparr>inAngleMode := 0\<rparr>
     else s)"

text \<open>\<open>applyThrustTransition\<close> (line 545).  The \<open>float\<close> arguments of
  \<open>imuComputeMotorQuatOffset\<close> are converted to its \<open>int16_t\<close> parameters.\<close>

definition applyThrustTransition :: "imu_state \<Rightarrow> imu_env \<Rightarrow> imu_state" where
  "applyThrustTransition s env =
    (if LYNCH_TRANSLATE env then
       (let rollTranslation = getRcDeflection env ROLL * 450;
            pitchTranslation = getRcDeflection env PITCH * 450;
            c = (if 0 < getCosTiltAngle s then
                   imuComputeMotorQuatOffset (qPThrustTranslation s)
                     (to_int16 (float_to_int (- rollTranslation)))
                     (to_int16 (float_to_int (- pitchTranslation))) 0
                 else
                   imuComputeMotorQuatOffset (qPThrustTranslation s)
                     (to_int16 (float_to_int (- rollTranslation)))
                     (to_int16 (float_to_int pitchTranslation)) 0);
            fix0 = cos_approx (DEGREES_TO_RADIANS (rollTranslation / 10))
                     * cos_approx (DEGREES_TO_RADIANS (pitchTranslation / 10))
        in s\<lparr>qPThrustTranslation := c, translationThrustFix := 1 / fix0\<rparr>)
     else
       s\<lparr>qPThrustTranslation := imuComputeMotorQuatOffset (qPThrustTranslation s) 0 0 0,
         translationThrustFix := 1\<rparr>)"

text \<open>The body of the loop over the six motors in \<open>imuUpdateEulerAngles\<close> (lines 580 to
  606), for one \<open>motor\<close>.\<close>

definition imuUpdateEulerAngles_motor :: "imu_env \<Rightarrow> nat \<Rightarrow> imu_state \<Rightarrow> imu_state" where
  "imuUpdateEulerAngles_motor env motor s =
    (let s1 = (if SET_LYNCH_MODE env \<or> (ANGLE_MODE env \<and> changedToAngle s = 0) \<or> motorsSetup s = 0 then
                 (let m = imuQuaternionMultiplicationProd (q s) (qPM s motor) 1
                  in s\<lparr>qM := (qM s)(motor := m), qLM := (qLM s)(motor := m)\<rparr>)
               else s);
         t = imuQuaternionMultiplicationProd (qLM s1 motor) (qPThrustTranslation s1) 1;
         s2 = s1\<lparr>qTM := (qTM s1)(motor := t)\<rparr>;
         temporaryThrust = 1 - 2 * qx t * qx t - 2 * qy t * qy t;
         temporaryPitch = (of_int (lrintf ((0.5 * M_PIf - acos_approx (- (2 * (qx t * qz t - qw t * qy t)))) * (1800 / M_PIf))) :: real);
         temporaryRoll = (of_int (lrintf ((0.5 * M_PIf - acos_approx (2 * (qy t * qz t + qw t * qx t))) * (1800 / M_PIf))) :: real);
         s3 = (if int motor = debugMotor env - 1 then
                 DEBUG_SET env DEBUG_LYNCH 3 (lrintf (temporaryThrust * 1000))
                   (DEBUG_SET env DEBUG_LYNCH 2 (lrintf temporaryPitch)
                     (DEBUG_SET env DEBUG_LYNCH 1 (lrintf temporaryRoll)
                       (DEBUG_SET env DEBUG_LYNCH 0 (lrintf (of_int (values_roll (attitude s2)))) s2)))
               else s2)
     in if SET_LYNCH_MODE env \<or> (ANGLE_MODE env \<and> changedToAngle s3 = 0)
           \<or> (ANGLE_MODE env \<or> LYNCH_TRANSLATE env) then
          s3\<lparr>thrust := (thrust s3)(motor := temporaryThrust),
             pitch := (pitch s3)(motor := temporaryPitch),
             roll := (roll s3)(motor := temporaryRoll)\<rparr>
        else s3)"

text \<open>The local \<open>buffer\<close> of \<open>imuUpdateEulerAngles\<close> and of
  \<open>imuQuaternionHeadfreeTransformVectorEarthToBody\<close> is not initialised; only the ten
  products, which \<open>imuQuaternionComputeProducts\<close> writes, are read from it.\<close>

definition local_buffer :: quaternionProducts where
  "local_buffer =
     \<lparr>pw = 0, px = 0, py = 0, pz = 0,
      ww = 0, wx = 0, wy = 0, wz = 0, xx = 0, xy = 0, xz = 0, yy = 0, yz = 0, zz = 0\<rparr>"

text \<open>The first statement of \<open>imuUpdateEulerAngles\<close> (lines 567 to 577): the three
  \<open>int16_t\<close> angles, from \<open>headfree\<close> in head-free mode and from \<open>rMat\<close> otherwise.\<close>

definition imuUpdateEulerAngles_euler :: "imu_state \<Rightarrow> imu_env \<Rightarrow> imu_state" where
  "imuUpdateEulerAngles_euler s env =
    (if HEADFREE_MODE env then
       (let buffer = imuQuaternionComputeProducts (headfree s) local_buffer
        in s\<lparr>attitude :=
               \<lparr>values_roll = to_int16 (lrintf (atan2_approx (2 * (wx buffer + yz buffer)) (1 - 2 * (xx buffer + yy buffer)) * (1800 / M_PIf))),
                values_pitch = to_int16 (lrintf ((0.5 * M_PIf - acos_approx (2 * (wy buffer - xz buffer))) * (1800 / M_PIf))),
                values_yaw = to_int16 (lrintf (- atan2_approx (2 * (wz buffer + xy buffer)) (1 - 2 * (yy buffer + zz buffer)) * (1800 / M_PIf)))\<rparr>\<rparr>)
     else
       s\<lparr>attitude :=
           \<lparr>values_roll = to_int16 (lrintf ((0.5 * M_PIf - acos_approx (r21 (rMat s))) * (1800 / M_PIf))),
            values_pitch = to_int16 (lrintf ((0.5 * M_PIf - acos_approx (- r20 (rMat s))) * (1800 / M_PIf))),
            values_yaw = to_int16 (lrintf (- atan2_approx (r10 (rMat s)) (r00 (rMat s)) * (1800 / M_PIf)))\<rparr>\<rparr>)"

text \<open>The statements of \<open>imuUpdateEulerAngles\<close> after the loop, each as a step on the
  state: the two latches (lines 608 to 613), the roll angle from \<open>atan2\<close> (line 615), the
  roll angle from \<open>acos\<close> (line 619), the angle-mode outputs (lines 621 to 624), the
  debug values (lines 626 to 635) and the yaw brought up from below zero (line 637).\<close>

definition imuUpdateEulerAngles_latch :: "imu_env \<Rightarrow> imu_state \<Rightarrow> imu_state" where
  "imuUpdateEulerAngles_latch env s =
     s\<lparr>changedToAngle := (if \<not> ANGLE_MODE env then 0 else 1), motorsSetup := 1\<rparr>"

definition imuUpdateEulerAngles_roll_atan2 :: "imu_state \<Rightarrow> imu_state" where
  "imuUpdateEulerAngles_roll_atan2 s =
     s\<lparr>attitude := (attitude s)
         \<lparr>values_roll := to_int16 (lrintf (atan2_approx (r21 (rMat s)) (r22 (rMat s)) * (1800 / M_PIf)))\<rparr>\<rparr>"

definition imuUpdateEulerAngles_roll_acos :: "imu_state \<Rightarrow> imu_state" where
  "imuUpdateEulerAngles_roll_acos s =
     s\<lparr>attitude := (attitude s)
         \<lparr>values_roll := to_int16 (lrintf ((0.5 * M_PIf - acos_approx (r21 (rMat s))) * (1800 / M_PIf)))\<rparr>\<rparr>"

definition imuUpdateEulerAngles_angle :: "imu_state \<Rightarrow> imu_state" where
  "imuUpdateEulerAngles_angle s =
    (let a = imuQuaternionMultiplicationProd (q s) (qPA s) 1
     in s\<lparr>qA := a,
          anglePitch := of_int (lrintf ((0.5 * M_PIf - acos_approx (- (2 * (qx a * qz a - qw a * qy a)))) * (1800 / M_PIf))),
          angleRoll := of_int (lrintf ((0.5 * M_PIf - acos_approx (2 * (qy a * qz a + qw a * qx a))) * (1800 / M_PIf)))\<rparr>)"

definition imuUpdateEulerAngles_debug :: "imu_env \<Rightarrow> imu_state \<Rightarrow> imu_state" where
  "imuUpdateEulerAngles_debug env s =
     DEBUG_SET env DEBUG_QUAT 3 (lrintf (qz (q s) * 1000))
       (DEBUG_SET env DEBUG_QUAT 2 (lrintf (qy (q s) * 1000))
         (DEBUG_SET env DEBUG_QUAT 1 (lrintf (qx (q s) * 1000))
           (DEBUG_SET env DEBUG_QUAT 0 (lrintf (qw (q s) * 1000))
             (DEBUG_SET env DEBUG_LYNCH_ANGLE 3 (lrintf (anglePitch s))
               (DEBUG_SET env DEBUG_LYNCH_ANGLE 2 (lrintf (angleRoll s))
                 (DEBUG_SET env DEBUG_LYNCH_ANGLE 1 (lrintf (of_int (values_pitch (attitude s))))
                   (DEBUG_SET env DEBUG_LYNCH_ANGLE 0 (lrintf (of_int (values_roll (attitude s)))) s)))))))"

definition imuUpdateEulerAngles_yaw :: "imu_state \<Rightarrow> imu_state" where
  "imuUpdateEulerAngles_yaw s =
     (if values_yaw (attitude s) < 0 then
        s\<lparr>attitude := (attitude s)\<lparr>values_yaw := to_int16 (values_yaw (attitude s) + 3600)\<rparr>\<rparr>
      else s)"

text \<open>\<open>imuUpdateEulerAngles\<close> (line 562): its statements in their order.\<close>

definition imuUpdateEulerAngles :: "imu_state \<Rightarrow> imu_env \<Rightarrow> imu_state" where
  "imuUpdateEulerAngles s env =
    (let s1 = imuUpdateEulerAngles_euler s env;
         s2 = applyThrustTransition s1 env;
         s3 = fold (imuUpdateEulerAngles_motor env) [0..<6] s2;
         s4 = imuUpdateEulerAngles_latch env s3;
         s5 = imuUpdateEulerAngles_roll_atan2 s4;
         s6 = setNewLevel s5 env;
         s7 = imuUpdateEulerAngles_roll_acos s6;
         s8 = imuUpdateEulerAngles_angle s7;
         s9 = imuUpdateEulerAngles_debug env s8
     in imuUpdateEulerAngles_yaw s9)"

subsection \<open>The tick\<close>

text \<open>
  The GPS block of \<open>imuCalculateEstimatedAttitude\<close> (lines 852 to 872), in a build with
  \<open>USE_GPS\<close>.  It returns \<open>useCOG\<close> and \<open>courseOverGround\<close>.  Both branches on
  \<open>isFixedWing()\<close> do the same; \<open>shouldInitializeGPSHeading()\<close> is called only behind
  \<open>useCOG\<close>, which is true there.
\<close>

definition imuCalculateEstimatedAttitude_gps :: "imu_state \<Rightarrow> imu_env \<Rightarrow> bool \<Rightarrow> bool \<times> real \<times> imu_state" where
  "imuCalculateEstimatedAttitude_gps s env useMag =
    (if \<not> useMag \<and> SENSOR_GPS env \<and> GPS_FIX env \<and> 5 \<le> numSat env
        \<and> GPS_COG_MIN_GROUNDSPEED \<le> unat (groundSpeed env) then
       (let courseOverGround = DECIDEGREES_TO_RADIANS (real (unat (groundCourse env)));
            useCOG = True;
            (init, s1) = shouldInitializeGPSHeading s
        in if useCOG \<and> init then
             (False, courseOverGround,
              imuComputeQuaternionFromRPY s1 (values_roll (attitude s1)) (values_pitch (attitude s1))
                (to_int16 (uint (groundCourse env))))
           else (useCOG, courseOverGround, s1))
     else (False, 0, s))"

text \<open>
  \<open>imuCalculateEstimatedAttitude\<close> (line 832), in a build with \<open>USE_MAG\<close>, \<open>USE_GPS\<close> and
  \<open>USE_GPS_RESCUE\<close> that is not the simulator's.  \<open>accGetAccumulationAverage\<close> fills
  \<open>accAverage\<close> and answers whether there were samples.
\<close>

definition imuCalculateEstimatedAttitude :: "imu_state \<Rightarrow> imu_env \<Rightarrow> timeUs_t \<Rightarrow> imu_state" where
  "imuCalculateEstimatedAttitude s env currentTimeUs =
    (let deltaT = sint (currentTimeUs - previousIMUUpdateTime s);
         s1 = s\<lparr>previousIMUUpdateTime := currentTimeUs\<rparr>;
         useMag = (SENSOR_MAG env \<and> compassIsHealthy env \<and> \<not> gpsRescueDisableMag env);
         (useCOG, courseOverGround, s2) = imuCalculateEstimatedAttitude_gps s1 env useMag;
         gyroAverage = gyroGetAccumulationAverage env;
         s3 = s2\<lparr>accAverage := snd (accGetAccumulationAverage env)\<rparr>;
         useAcc = (if fst (accGetAccumulationAverage env)
                   then imuIsAccelerometerHealthy (accAverage s3) (acc_1G_rec env) else 0);
         s4 = (if level_recovery (imuRuntimeConfig s3) \<noteq> 0 then imuHandleLevelRecovery s3 env currentTimeUs else s3);
         (dcmKpGain, s5) = imuCalcKpGain s4 env currentTimeUs useAcc gyroAverage;
         s6 = imuMahonyAHRSupdate s5 env (of_int deltaT * 0.000001)
                (DEGREES_TO_RADIANS (gyroAverage axis_X))
                (DEGREES_TO_RADIANS (gyroAverage axis_Y))
                (DEGREES_TO_RADIANS (gyroAverage axis_Z))
                useAcc (accAverage s5 axis_X) (accAverage s5 axis_Y) (accAverage s5 axis_Z)
                useMag useCOG courseOverGround dcmKpGain
     in imuUpdateEulerAngles s6 env)"

text \<open>\<open>calculateThrottleAngleCorrection\<close> (line 910).\<close>

definition calculateThrottleAngleCorrection :: "imu_state \<Rightarrow> int" where
  "calculateThrottleAngleCorrection s =
    (if getCosTiltAngle s \<le> 0.015 then 0
     else
       (let angle0 = lrintf (acos_approx (getCosTiltAngle s) * throttleAngleScale s);
            angle = (if 900 < angle0 then 900 else angle0)
        in lrintf (of_int (throttleAngleValue s) * sin_approx (of_int angle / (900 * M_PIf / 2)))))"

subsection \<open>Head-free mode and the upright test\<close>

text \<open>\<open>imuQuaternionHeadfreeOffsetSet\<close> (line 1053).  \<open>ABS\<close> of an \<open>int16_t\<close> is taken in
  \<open>int\<close>.\<close>

definition imuQuaternionHeadfreeOffsetSet :: "imu_state \<Rightarrow> bool \<times> imu_state" where
  "imuQuaternionHeadfreeOffsetSet s =
    (if \<bar>values_roll (attitude s)\<bar> < 450 \<and> \<bar>values_pitch (attitude s)\<bar> < 450 then
       (let yaw = - atan2_approx (2 * (wz (qP s) + xy (qP s))) (1 - 2 * (yy (qP s) + zz (qP s)))
        in (True, s\<lparr>offset := (offset s)\<lparr>qw := cos_approx (yaw / 2), qx := 0, qy := 0,
                                          qz := sin_approx (yaw / 2)\<rparr>\<rparr>))
     else (False, s))"

text \<open>\<open>imuQuaternionHeadfreeTransformVectorEarthToBody\<close> (line 1070), on a vector given
  as its three components.\<close>

definition imuQuaternionHeadfreeTransformVectorEarthToBody ::
  "imu_state \<Rightarrow> real \<times> real \<times> real \<Rightarrow> (real \<times> real \<times> real) \<times> imu_state" where
  "imuQuaternionHeadfreeTransformVectorEarthToBody s v =
    (case v of (vX, vY, vZ) \<Rightarrow>
      (let s1 = s\<lparr>headfree := imuQuaternionMultiplication (offset s) (q s)\<rparr>;
           buffer = imuQuaternionComputeProducts (headfree s1) local_buffer;
           x = (ww buffer + xx buffer - yy buffer - zz buffer) * vX
                 + 2 * (xy buffer + wz buffer) * vY + 2 * (xz buffer - wy buffer) * vZ;
           y = 2 * (xy buffer - wz buffer) * vX
                 + (ww buffer - xx buffer + yy buffer - zz buffer) * vY + 2 * (yz buffer + wx buffer) * vZ;
           z = 2 * (xz buffer + wy buffer) * vX + 2 * (yz buffer - wx buffer) * vY
                 + (ww buffer - xx buffer - yy buffer + zz buffer) * vZ
       in ((x, y, z), s1)))"

text \<open>\<open>isUpright\<close> (line 1086), in a build with \<open>USE_ACC\<close> (the functions above exist in
  such a build only).\<close>

definition isUpright :: "imu_state \<Rightarrow> imu_env \<Rightarrow> bool" where
  "isUpright s env =
     (\<not> SENSOR_ACC env \<or> (attitudeIsEstablished s \<and> smallAngleCosZ s < getCosTiltAngle s))"

text \<open>The state at boot: the initialisers of the file-scope objects, zero where there is
  none, and \<open>rMat\<close> as \<open>imuInit\<close> leaves it.\<close>

definition boot_state :: imu_state where
  "boot_state = imuComputeRotationMatrix
     \<lparr>accAverage = (\<lambda>_. 0),
      levelRecoveryActive = False,
      levelRecoveryStrength = 0,
      throttleAngleScale = 0,
      throttleAngleValue = 0,
      smallAngleCosZ = 0,
      imuRuntimeConfig = \<lparr>dcm_ki = 0, dcm_kp = 0, level_recovery = 0, level_recovery_time = 0,
                          level_recovery_coef = 0, level_recovery_threshold = 0\<rparr>,
      rMat = \<lparr>r00 = 0, r01 = 0, r02 = 0, r10 = 0, r11 = 0, r12 = 0, r20 = 0, r21 = 0, r22 = 0\<rparr>,
      attitudeIsEstablished = False,
      q = QUATERNION_INITIALIZE,
      qP = QUATERNION_PRODUCTS_INITIALIZE,
      qM = (\<lambda>_. QUATERNION_INITIALIZE),
      qPM = (\<lambda>_. QUATERNION_PRODUCTS_INITIALIZE),
      qLM = (\<lambda>_. QUATERNION_INITIALIZE),
      qTM = (\<lambda>_. QUATERNION_INITIALIZE),
      thrust = (\<lambda>_. 0),
      pitch = (\<lambda>_. 0),
      roll = (\<lambda>_. 0),
      anglePitch = 0,
      angleRoll = 0,
      qA = QUATERNION_INITIALIZE,
      qPA = QUATERNION_PRODUCTS_INITIALIZE,
      qPThrustTranslation = QUATERNION_PRODUCTS_INITIALIZE,
      headfree = QUATERNION_INITIALIZE,
      offset = QUATERNION_INITIALIZE,
      attitude = \<lparr>values_roll = 0, values_pitch = 0, values_yaw = 0\<rparr>,
      translationThrustFix = 1,
      debug = (\<lambda>_. 0),
      integralFBx = 0,
      integralFBy = 0,
      integralFBz = 0,
      inAngleMode = 0,
      changedToAngle = 0,
      motorsSetup = 0,
      lastArmState = False,
      gyroQuietPeriodTimeEnd = 0,
      attitudeResetTimeEnd = 0,
      attitudeResetCompleted = False,
      previousCrashTime = 0,
      previousIMUUpdateTime = 0,
      initialized = False\<rparr>"

subsection \<open>The specification's product\<close>

text \<open>
  The quaternion algebra as the specification words it: the Hamilton product written out
  with its sixteen multiplications, the norm, and normalisation to unit norm.  These
  three definitions follow the specification, not the source; the source's functions are
  compared with them.
\<close>

definition spec_hamilton :: "quaternion \<Rightarrow> quaternion \<Rightarrow> quaternion" where
  "spec_hamilton a b =
     \<lparr>qw = qw a * qw b - qx a * qx b - qy a * qy b - qz a * qz b,
      qx = qw a * qx b + qx a * qw b + qy a * qz b - qz a * qy b,
      qy = qw a * qy b - qx a * qz b + qy a * qw b + qz a * qx b,
      qz = qw a * qz b + qx a * qy b - qy a * qx b + qz a * qw b\<rparr>"

definition spec_norm :: "quaternion \<Rightarrow> real" where
  "spec_norm a = sqrt (qw a * qw a + qx a * qx a + qy a * qy a + qz a * qz a)"

definition spec_normalize :: "quaternion \<Rightarrow> quaternion" where
  "spec_normalize a =
     \<lparr>qw = qw a / spec_norm a, qx = qx a / spec_norm a,
      qy = qy a / spec_norm a, qz = qz a / spec_norm a\<rparr>"

text \<open>The quaternion whose components are the \<open>w, x, y, z\<close> stored in a product cache.\<close>

definition quaternion_of_products :: "quaternionProducts \<Rightarrow> quaternion" where
  "quaternion_of_products p = \<lparr>qw = pw p, qx = px p, qy = py p, qz = pz p\<rparr>"

definition zero_quaternion :: quaternion where
  "zero_quaternion = \<lparr>qw = 0, qx = 0, qy = 0, qz = 0\<rparr>"

subsection \<open>The fields that carry the filter from tick to tick\<close>

text \<open>The orientation, the rotation matrix, the integral terms, the configuration, the
  latch of the GPS heading, the time of the last update and the four variables of the
  attitude-reset machine.\<close>

definition filter_fields ::
  "imu_state \<Rightarrow> quaternion \<times> rotation_matrix \<times> (real \<times> real \<times> real) \<times> imuRuntimeConfig_t \<times> bool \<times> timeUs_t
     \<times> (bool \<times> timeUs_t \<times> timeUs_t \<times> bool)" where
  "filter_fields s =
     (q s, rMat s, (integralFBx s, integralFBy s, integralFBz s), imuRuntimeConfig s, initialized s,
      previousIMUUpdateTime s,
      (lastArmState s, gyroQuietPeriodTimeEnd s, attitudeResetTimeEnd s, attitudeResetCompleted s))"

abbreviation (input) unit_matrix :: rotation_matrix where
  "unit_matrix \<equiv> \<lparr>r00 = 1, r01 = 0, r02 = 0, r10 = 0, r11 = 1, r12 = 0, r20 = 0, r21 = 0, r22 = 1\<rparr>"

subsection \<open>Example inputs\<close>

text \<open>A craft on the bench: disarmed, no flight mode, an accelerometer of 2048 counts per
  g that reads 1 g on its Z axis, no magnetometer and no GPS.\<close>

definition bench_env :: imu_env where
  "bench_env =
     \<lparr>ARMED = False, ANGLE_MODE = False, HORIZON_MODE = False, HEADFREE_MODE = False,
      SET_LYNCH_MODE = False, LYNCH_TRANSLATE = False,
      getRcDeflection = (\<lambda>_. 0), getRcDeflectionAbs = (\<lambda>_. 0),
      SENSOR_ACC = True, SENSOR_MAG = False, SENSOR_GPS = False,
      compassIsHealthy = False, gpsRescueDisableMag = False, GPS_FIX = False,
      isFixedWing = False, numSat = 0, groundSpeed = 0, groundCourse = 0,
      magADC = (\<lambda>_. 0), gyroADCf = (\<lambda>_. 0), gyroGetAccumulationAverage = (\<lambda>_. 0),
      accGetAccumulationAverage = (True, (\<lambda>i. if i = 2 then 2048 else 0)),
      acc_1G_rec = 1 / 2048, debugMode = DEBUG_NONE, debugMotor = 1\<rparr>"

text \<open>The configuration that \<open>imuConfigure\<close> derives from the reset template of
  \<open>imuConfig\<close> (line 135).\<close>

definition default_config :: imuRuntimeConfig_t where
  "default_config =
     \<lparr>dcm_ki = 7 / 10000, dcm_kp = 2500 / 10000, level_recovery = 1, level_recovery_time = 2500,
      level_recovery_coef = 5, level_recovery_threshold = 1900\<rparr>"

text \<open>The boot state with a roll angle of \<open>r\<close> decidegrees published and a head-free
  offset of half a turn about Z.\<close>

definition banked :: "int \<Rightarrow> imu_state" where
  "banked r = boot_state\<lparr>attitude := \<lparr>values_roll = r, values_pitch = 0, values_yaw = 0\<rparr>,
                          offset := \<lparr>qw = 0, qx = 0, qy = 0, qz = 1\<rparr>\<rparr>"

text \<open>The boot state, configured, with an integral term on the X axis.\<close>

definition wound_state :: imu_state where
  "wound_state = boot_state\<lparr>imuRuntimeConfig := default_config, integralFBx := 1 / 100\<rparr>"

text \<open>A craft rolled by 60 degrees, with a throttle correction of 100 that is full at 90
  degrees of tilt (\<open>throttle_correction_angle = 900\<close>).\<close>

definition tilted_state :: imu_state where
  "tilted_state = imuComputeRotationMatrix
     (boot_state\<lparr>q := \<lparr>qw = sqrt 3 / 2, qx = 1 / 2, qy = 0, qz = 0\<rparr>,
                 throttleAngleScale := calculateThrottleAngleScale 900,
                 throttleAngleValue := 100\<rparr>)"

text \<open>A craft turned by a quarter turn about Z.\<close>

definition yawed_state :: imu_state where
  "yawed_state = imuComputeRotationMatrix
     (boot_state\<lparr>q := \<lparr>qw = sqrt 2 / 2, qx = 0, qy = 0, qz = sqrt 2 / 2\<rparr>\<rparr>)"

text \<open>The boot state, configured; and the bench with a GPS fix of 8 satellites that
  reports 6 m/s over ground on a course of 90 degrees.\<close>

definition configured_state :: imu_state where
  "configured_state = boot_state\<lparr>imuRuntimeConfig := default_config\<rparr>"

definition gps_env :: imu_env where
  "gps_env = bench_env\<lparr>SENSOR_GPS := True, GPS_FIX := True, numSat := 8, groundSpeed := 600,
                         groundCourse := 900\<rparr>"

text \<open>The craft of the bench in flight: armed, with a quiet gyro.\<close>

definition flying_env :: imu_env where
  "flying_env = bench_env\<lparr>ARMED := True\<rparr>"

text \<open>The state of the level recovery 1.875 s after a crash: the boot state, configured,
  after \<open>imuHandleLevelRecovery\<close> has seen 2000 deg/s on the X axis of the gyro at 60 s
  (the threshold is 1900 deg/s) and a quiet gyro at 61.875 s, the craft armed.\<close>

definition crashed_state :: imu_state where
  "crashed_state =
     imuHandleLevelRecovery
       (imuHandleLevelRecovery configured_state
          (flying_env\<lparr>gyroADCf := (\<lambda>axis. if axis = 0 then 2000 else 0)\<rparr>) 60000000)
       flying_env 61875000"

section \<open>Properties\<close>

subsection \<open>The state at boot\<close>

lemma boot_q: "q boot_state = QUATERNION_INITIALIZE"
  by (simp add: boot_state_def imuComputeRotationMatrix_def Let_def)

lemma boot_rMat:
  "rMat boot_state =
     \<lparr>r00 = 1, r01 = 0, r02 = 0, r10 = 0, r11 = 1, r12 = 0, r20 = 0, r21 = 0, r22 = 1\<rparr>"
  by (simp add: boot_state_def imuComputeRotationMatrix_def Let_def imuQuaternionComputeProducts_def
      QUATERNION_INITIALIZE_def QUATERNION_PRODUCTS_INITIALIZE_def)

lemma boot_not_established: "\<not> attitudeIsEstablished boot_state"
  by (simp add: boot_state_def imuComputeRotationMatrix_def Let_def)

lemma boot_qP: "qP boot_state = QUATERNION_PRODUCTS_INITIALIZE"
  by (simp add: boot_state_def imuComputeRotationMatrix_def Let_def imuQuaternionComputeProducts_def
      QUATERNION_INITIALIZE_def QUATERNION_PRODUCTS_INITIALIZE_def)

lemma boot_fields:
  "levelRecoveryActive boot_state = False"
  "lastArmState boot_state = False"
  by (simp_all add: boot_state_def imuComputeRotationMatrix_def Let_def)

subsection \<open>Quaternion multiplication\<close>

lemma imuQuaternionMultiplication_hamilton:
  "imuQuaternionMultiplication q1 q2 = spec_hamilton q1 q2"
  by (simp add: imuQuaternionMultiplication_def spec_hamilton_def Let_def field_simps)

lemma spec_norm_hamilton_sq:
  "(spec_norm (spec_hamilton a b))\<^sup>2 = (spec_norm a)\<^sup>2 * (spec_norm b)\<^sup>2"
proof -
  have nn: "\<And>c. 0 \<le> qw c * qw c + qx c * qx c + qy c * qy c + qz c * qz c"
    by (simp add: add_nonneg_nonneg)
  show ?thesis
    unfolding spec_norm_def
    by (simp only: real_sqrt_pow2 [OF nn]) (simp add: spec_hamilton_def algebra_simps)
qed

lemma spec_norm_nonneg: "0 \<le> spec_norm a"
  by (simp add: spec_norm_def add_nonneg_nonneg)

lemma spec_norm_hamilton: "spec_norm (spec_hamilton a b) = spec_norm a * spec_norm b"
proof -
  have "(spec_norm (spec_hamilton a b))\<^sup>2 = (spec_norm a * spec_norm b)\<^sup>2"
    by (simp add: spec_norm_hamilton_sq power_mult_distrib)
  then show ?thesis
    using spec_norm_nonneg [of a] spec_norm_nonneg [of b] spec_norm_nonneg [of "spec_hamilton a b"]
    by (simp add: power2_eq_iff_nonneg)
qed

text \<open>
  Claim C3, as stated, fails: \<open>imuQuaternionMultiplication\<close> does not normalise.  The
  product of \<open>(2, 0, 0, 0)\<close> and the identity is \<open>(2, 0, 0, 0)\<close>, of norm 2, where the
  normalised Hamilton product is \<open>(1, 0, 0, 0)\<close>.
\<close>

theorem imuQuaternionMultiplication_not_normalized:
  "imuQuaternionMultiplication \<lparr>qw = 2, qx = 0, qy = 0, qz = 0\<rparr> \<lparr>qw = 1, qx = 0, qy = 0, qz = 0\<rparr>
     = \<lparr>qw = 2, qx = 0, qy = 0, qz = 0\<rparr>
   \<and> spec_normalize (spec_hamilton \<lparr>qw = 2, qx = 0, qy = 0, qz = 0\<rparr> \<lparr>qw = 1, qx = 0, qy = 0, qz = 0\<rparr>)
     = \<lparr>qw = 1, qx = 0, qy = 0, qz = 0\<rparr>
   \<and> spec_norm (imuQuaternionMultiplication \<lparr>qw = 2, qx = 0, qy = 0, qz = 0\<rparr> \<lparr>qw = 1, qx = 0, qy = 0, qz = 0\<rparr>) = 2"
proof -
  have "sqrt 4 = 2"
    using real_sqrt_abs [of 2] by simp
  then show ?thesis
    by (simp add: imuQuaternionMultiplication_def spec_hamilton_def spec_normalize_def spec_norm_def Let_def)
qed

text \<open>
  Claim C3, amended: for every pair of quaternions \<open>q1\<close>, \<open>q2\<close>,
  \<open>imuQuaternionMultiplication\<close> returns the Hamilton product of \<open>q1\<close> and \<open>q2\<close> as it
  is, without normalising it; the norm of the result is the product of the norms of the
  inputs, so the result has unit norm when both inputs have.
\<close>

theorem imuQuaternionMultiplication_is_hamilton:
  "imuQuaternionMultiplication q1 q2 = spec_hamilton q1 q2
   \<and> spec_norm (imuQuaternionMultiplication q1 q2) = spec_norm q1 * spec_norm q2"
  by (simp add: imuQuaternionMultiplication_hamilton spec_norm_hamilton)

lemma imuQuaternionMultiplicationProd_components:
  "imuQuaternionMultiplicationProd q1 q2 1 =
     (let h = spec_hamilton q1 (quaternion_of_products q2);
          recipNorm = invSqrt (sq (qw h) + sq (qx h) + sq (qy h) + sq (qz h))
      in \<lparr>qw = qw h * recipNorm, qx = qx h * recipNorm, qy = qy h * recipNorm, qz = qz h * recipNorm\<rparr>)"
proof -
  have e: "imuQuaternionMultiplication q1 (quaternion_of_products q2)
             = spec_hamilton q1 (quaternion_of_products q2)"
    by (rule imuQuaternionMultiplication_hamilton)
  show ?thesis
    unfolding e [symmetric]
    by (simp add: imuQuaternionMultiplicationProd_def imuQuaternionMultiplication_def
        quaternion_of_products_def Let_def)
qed

text \<open>
  Claim C9: for all inputs whose Hamilton product is not zero, the eight-multiplication
  form of \<open>imuQuaternionMultiplicationProd\<close> with \<open>order = 1\<close> yields, over the reals, the
  quaternion that the sixteen-multiplication Hamilton product of \<open>q1\<close> and the quaternion
  stored in the product cache yields after normalisation.
\<close>

theorem imuQuaternionMultiplicationProd_refines_hamilton:
  assumes "spec_hamilton q1 (quaternion_of_products q2) \<noteq> zero_quaternion"
  shows "imuQuaternionMultiplicationProd q1 q2 1
           = spec_normalize (spec_hamilton q1 (quaternion_of_products q2))"
  by (simp add: imuQuaternionMultiplicationProd_components Let_def spec_normalize_def
      spec_norm_def invSqrt_def sq_def)

theorem imuQuaternionMultiplicationProd_refines_hamilton_witness:
  "spec_hamilton \<lparr>qw = 0, qx = 1, qy = 0, qz = 0\<rparr>
       (quaternion_of_products (QUATERNION_PRODUCTS_INITIALIZE\<lparr>pw := 0, py := 1\<rparr>))
     \<noteq> zero_quaternion
   \<and> imuQuaternionMultiplicationProd \<lparr>qw = 0, qx = 1, qy = 0, qz = 0\<rparr>
       (QUATERNION_PRODUCTS_INITIALIZE\<lparr>pw := 0, py := 1\<rparr>) 1
     = \<lparr>qw = 0, qx = 0, qy = 0, qz = 1\<rparr>"
proof -
  let ?i = "\<lparr>qw = 0, qx = 1, qy = 0, qz = 0\<rparr>"
  let ?j = "QUATERNION_PRODUCTS_INITIALIZE\<lparr>pw := 0, py := 1\<rparr>"
  let ?k = "\<lparr>qw = 0, qx = 0, qy = 0, qz = 1\<rparr>"
  have h: "spec_hamilton ?i (quaternion_of_products ?j) = ?k"
    by (simp add: spec_hamilton_def quaternion_of_products_def QUATERNION_PRODUCTS_INITIALIZE_def)
  have nz: "spec_hamilton ?i (quaternion_of_products ?j) \<noteq> zero_quaternion"
    unfolding h by (simp add: zero_quaternion_def)
  have n: "spec_normalize ?k = ?k"
    by (simp add: spec_normalize_def spec_norm_def)
  show ?thesis
    using imuQuaternionMultiplicationProd_refines_hamilton [OF nz] nz unfolding h n by simp
qed

subsection \<open>The upright test\<close>

text \<open>
  Claim C10: \<open>isUpright\<close> returns true whenever the ACC sensor is not present, whatever
  the orientation; with the ACC sensor present it returns false whenever the attitude has
  never been established, even if the tilt condition
  \<open>getCosTiltAngle() > smallAngleCosZ\<close> holds.
\<close>

theorem isUpright_sensor_and_attitude:
  "(\<not> SENSOR_ACC env \<longrightarrow> isUpright s env)
   \<and> (SENSOR_ACC env \<and> \<not> attitudeIsEstablished s \<longrightarrow> \<not> isUpright s env)"
  by (simp add: isUpright_def)

theorem isUpright_sensor_and_attitude_witness:
  "\<not> SENSOR_ACC (bench_env\<lparr>SENSOR_ACC := False\<rparr>)
   \<and> isUpright boot_state (bench_env\<lparr>SENSOR_ACC := False\<rparr>)
   \<and> SENSOR_ACC bench_env \<and> \<not> attitudeIsEstablished boot_state
   \<and> smallAngleCosZ boot_state < getCosTiltAngle boot_state
   \<and> \<not> isUpright boot_state bench_env"
proof -
  have a: "\<not> SENSOR_ACC (bench_env\<lparr>SENSOR_ACC := False\<rparr>)"
    by simp
  have b: "SENSOR_ACC bench_env"
    by (simp add: bench_env_def)
  have d: "smallAngleCosZ boot_state < getCosTiltAngle boot_state"
    by (simp add: getCosTiltAngle_def boot_rMat)
       (simp add: boot_state_def imuComputeRotationMatrix_def Let_def)
  show ?thesis
    using isUpright_sensor_and_attitude [of "bench_env\<lparr>SENSOR_ACC := False\<rparr>" boot_state]
      isUpright_sensor_and_attitude [of bench_env boot_state] a b boot_not_established d
    by simp
qed

subsection \<open>Head-free offset\<close>

lemma atan2_approx_origin: "atan2_approx 0 1 = 0"
  by (simp add: atan2_approx_def)

text \<open>
  Claim C6: \<open>imuQuaternionHeadfreeOffsetSet\<close> returns true and sets
  \<open>offset = (cos(yaw/2), 0, 0, sin(yaw/2))\<close>, with the yaw extracted from \<open>qP\<close>, exactly
  when \<open>|attitude.roll| < 450\<close> and \<open>|attitude.pitch| < 450\<close> decidegrees; otherwise it
  returns false and leaves \<open>offset\<close> (and everything else) unchanged.
\<close>

theorem imuQuaternionHeadfreeOffsetSet_bank_limit:
  "(fst (imuQuaternionHeadfreeOffsetSet s)
      \<longleftrightarrow> \<bar>values_roll (attitude s)\<bar> < 450 \<and> \<bar>values_pitch (attitude s)\<bar> < 450)
   \<and> (fst (imuQuaternionHeadfreeOffsetSet s) \<longrightarrow>
        snd (imuQuaternionHeadfreeOffsetSet s) =
          (let yaw = - atan2_approx (2 * (wz (qP s) + xy (qP s))) (1 - 2 * (yy (qP s) + zz (qP s)))
           in s\<lparr>offset := \<lparr>qw = cos (yaw / 2), qx = 0, qy = 0, qz = sin (yaw / 2)\<rparr>\<rparr>))
   \<and> (\<not> fst (imuQuaternionHeadfreeOffsetSet s) \<longrightarrow> snd (imuQuaternionHeadfreeOffsetSet s) = s)"
  by (simp add: imuQuaternionHeadfreeOffsetSet_def Let_def cos_approx_def sin_approx_def)

theorem imuQuaternionHeadfreeOffsetSet_bank_limit_witness:
  "fst (imuQuaternionHeadfreeOffsetSet (banked 449))
   \<and> offset (snd (imuQuaternionHeadfreeOffsetSet (banked 449))) = \<lparr>qw = 1, qx = 0, qy = 0, qz = 0\<rparr>
   \<and> \<not> fst (imuQuaternionHeadfreeOffsetSet (banked 451))
   \<and> offset (snd (imuQuaternionHeadfreeOffsetSet (banked 451))) = \<lparr>qw = 0, qx = 0, qy = 0, qz = 1\<rparr>"
proof -
  have a: "\<bar>values_roll (attitude (banked 449))\<bar> < 450 \<and> \<bar>values_pitch (attitude (banked 449))\<bar> < 450"
    by (simp add: banked_def)
  have b: "\<not> (\<bar>values_roll (attitude (banked 451))\<bar> < 450 \<and> \<bar>values_pitch (attitude (banked 451))\<bar> < 450)"
    by (simp add: banked_def)
  have c: "qP (banked 449) = QUATERNION_PRODUCTS_INITIALIZE"
    by (simp add: banked_def boot_qP)
  have d: "offset (banked 451) = \<lparr>qw = 0, qx = 0, qy = 0, qz = 1\<rparr>"
    by (simp add: banked_def)
  show ?thesis
    using imuQuaternionHeadfreeOffsetSet_bank_limit [of "banked 449"]
      imuQuaternionHeadfreeOffsetSet_bank_limit [of "banked 451"] a b d
    by (simp add: c QUATERNION_PRODUCTS_INITIALIZE_def atan2_approx_origin Let_def)
qed

subsection \<open>The gain scheduler\<close>

lemma imuCalcKpGain_reset_keeps:
  "levelRecoveryActive (snd (imuCalcKpGain_reset s env t u g)) = levelRecoveryActive s"
  "levelRecoveryStrength (snd (imuCalcKpGain_reset s env t u g)) = levelRecoveryStrength s"
  "imuRuntimeConfig (snd (imuCalcKpGain_reset s env t u g)) = imuRuntimeConfig s"
  by (simp_all add: imuCalcKpGain_reset_def Let_def split: prod.splits if_splits)

text \<open>The local \<open>attitudeResetActive\<close> is set exactly when the craft is disarmed and was
  so at the last call, the reset timer is running and not yet due, the gyro is quiet on
  every axis and the accelerometer is usable.\<close>

lemma imuCalcKpGain_reset_active_iff:
  "fst (imuCalcKpGain_reset s env t u g) \<longleftrightarrow>
     \<not> ARMED env \<and> \<not> lastArmState s \<and> 0 < attitudeResetTimeEnd s \<and> t < attitudeResetTimeEnd s
     \<and> \<not> (ATTITUDE_RESET_GYRO_LIMIT < \<bar>g 0\<bar> \<or> ATTITUDE_RESET_GYRO_LIMIT < \<bar>g 1\<bar>
            \<or> ATTITUDE_RESET_GYRO_LIMIT < \<bar>g 2\<bar> \<or> u = 0)"
  by (auto simp add: imuCalcKpGain_reset_def Let_def split: prod.splits if_splits)

lemma imuCalcKpGain_value:
  "fst (imuCalcKpGain s env t u g) =
     (if levelRecoveryActive s then
        dcm_kp (imuRuntimeConfig s)
          * (1 + of_int (c_div (uint (level_recovery_coef (imuRuntimeConfig s)) * levelRecoveryStrength s) 1000))
      else if fst (imuCalcKpGain_reset s env t u g) then ATTITUDE_RESET_KP_GAIN
      else if \<not> ARMED env then dcm_kp (imuRuntimeConfig s) * 10
      else dcm_kp (imuRuntimeConfig s))"
proof -
  obtain a s1 where r: "imuCalcKpGain_reset s env t u g = (a, s1)"
    by (cases "imuCalcKpGain_reset s env t u g")
  have k: "levelRecoveryActive s1 = levelRecoveryActive s"
    "levelRecoveryStrength s1 = levelRecoveryStrength s"
    "imuRuntimeConfig s1 = imuRuntimeConfig s"
    using imuCalcKpGain_reset_keeps [of s env t u g] by (simp_all add: r)
  show ?thesis
    by (simp add: imuCalcKpGain_def r k Let_def)
qed

lemma upt_3: "[0..<3] = [0, 1, 2]"
  by (simp add: upt_rec)

text \<open>Three quarters of the recovery window of 2.5 s have passed in \<open>crashed_state\<close>:
  the strength, full for the first half of the window, has decayed to 500 of 1000.\<close>

lemma crashed_fields:
  "levelRecoveryActive crashed_state"
  "levelRecoveryStrength crashed_state = 500"
  "imuRuntimeConfig crashed_state = default_config"
  by (simp_all add: crashed_state_def imuHandleLevelRecovery_def configured_state_def flying_env_def
      bench_env_def default_config_def upt_3 Let_def)

text \<open>
  Claim C5 (\<open>imuCalcKpGain\<close> returns 25.0 whenever the attitude-reset active window is
  open and level recovery is not active; and whenever \<open>levelRecoveryActive\<close> is true it
  returns \<open>dcm_kp * (1 + level_recovery_coef * levelRecoveryStrength / 1000)\<close>, whatever
  the reset window and the arming flag) does not hold of the code in its second part.
  In \<open>crashed_state\<close> level recovery is active with a strength of 500, the coefficient is
  5 and \<open>dcm_kp\<close> is 0.25, so that the formula gives \<open>0.25 * (1 + 2.5) = 0.875\<close>;
  \<open>imuCalcKpGain\<close> returns \<open>0.25 * (1 + 2) = 0.75\<close>, because the quotient of
  \<open>5 * 500\<close> by 1000 is taken between integers before \<open>1.0f\<close> is added.
\<close>

theorem imuCalcKpGain_recovery_quotient_truncated:
  "levelRecoveryActive crashed_state
   \<and> levelRecoveryStrength crashed_state = 500
   \<and> level_recovery_coef (imuRuntimeConfig crashed_state) = 5
   \<and> dcm_kp (imuRuntimeConfig crashed_state) = 1 / 4
   \<and> fst (imuCalcKpGain crashed_state flying_env 61875000 1 (\<lambda>axis. 0)) = 3 / 4
   \<and> (1 / 4) * (1 + 5 * 500 / 1000) = (7 / 8 :: real)"
  by (simp add: imuCalcKpGain_value crashed_fields default_config_def c_div_def)

subsection \<open>Accelerometer health\<close>

text \<open>What the function computes, with \<open>m\<close> the squared magnitude in units of g: the
  rising line \<open>2 m - 1\<close> is applied above 1 and the falling line \<open>1 + (1 - m) / 0.69\<close>
  up to 1.\<close>

lemma imuIsAccelerometerHealthy_value:
  "imuIsAccelerometerHealthy a r =
     (let m = (a 0 * a 0 + a 1 * a 1 + a 2 * a 2) * (r * r)
      in if 0.5 < m \<and> m < 1.69 then (if 1 < m then 2 * m - 1 else 1 + (1 - m) / 0.69) else 0)"
  by (simp add: imuIsAccelerometerHealthy_def upt_3 Let_def scaleRangef_def sq_def field_simps)

text \<open>
  Claim C1 (the strength lies in \<open>[0, 1]\<close>, rising linearly from 0 at \<open>m = 0.5\<close> to 1 at
  \<open>m = 1.0\<close> and falling linearly to 0 at \<open>m = 1.69\<close>) does not hold of the code.  With
  an accelerometer of 2048 counts per g that reads 1536 counts on X, \<open>m = 9/16\<close>; the
  rising line gives \<open>1/8\<close> there, and \<open>imuIsAccelerometerHealthy\<close> returns
  \<open>451/276\<close>, which is above 1.
\<close>

theorem imuIsAccelerometerHealthy_above_one:
  "imuIsAccelerometerHealthy (\<lambda>axis. if axis = 0 then 1536 else 0) (1 / 2048) = 451 / 276
   \<and> (1536 * 1536) * ((1 / 2048) * (1 / 2048)) = (9 / 16 :: real)
   \<and> scaleRangef (9 / 16) 0.5 1.0 0.0 1.0 = 1 / 8"
  by (simp add: imuIsAccelerometerHealthy_value Let_def scaleRangef_def)

subsection \<open>The integral feedback\<close>

lemma imuComputeRotationMatrix_integral:
  "integralFBx (imuComputeRotationMatrix s) = integralFBx s"
  "integralFBy (imuComputeRotationMatrix s) = integralFBy s"
  "integralFBz (imuComputeRotationMatrix s) = integralFBz s"
  by (simp_all add: imuComputeRotationMatrix_def Let_def)

lemma imuMahonyAHRSupdate_integrate_integral:
  "integralFBx (imuMahonyAHRSupdate_integrate s dt gx gy gz u e kp) = integralFBx s"
  "integralFBy (imuMahonyAHRSupdate_integrate s dt gx gy gz u e kp) = integralFBy s"
  "integralFBz (imuMahonyAHRSupdate_integrate s dt gx gy gz u e kp) = integralFBz s"
  by (simp_all add: imuMahonyAHRSupdate_integrate_def Let_def imuComputeRotationMatrix_integral
      split: prod.splits)

lemma imuMahonyAHRSupdate_feedback_integral:
  "integralFBx (imuMahonyAHRSupdate_feedback s spin e dt u) =
     (if 0 < dcm_ki (imuRuntimeConfig s) then
        (if spin < DEGREES_TO_RADIANS SPIN_RATE_LIMIT then
           integralFBx s + dcm_ki (imuRuntimeConfig s) * fst e * dt * u
         else integralFBx s)
      else 0)"
  "integralFBy (imuMahonyAHRSupdate_feedback s spin e dt u) =
     (if 0 < dcm_ki (imuRuntimeConfig s) then
        (if spin < DEGREES_TO_RADIANS SPIN_RATE_LIMIT then
           integralFBy s + dcm_ki (imuRuntimeConfig s) * fst (snd e) * dt * u
         else integralFBy s)
      else 0)"
  "integralFBz (imuMahonyAHRSupdate_feedback s spin e dt u) =
     (if 0 < dcm_ki (imuRuntimeConfig s) then
        (if spin < DEGREES_TO_RADIANS SPIN_RATE_LIMIT then
           integralFBz s + dcm_ki (imuRuntimeConfig s) * snd (snd e) * dt * u
         else integralFBz s)
      else 0)"
  by (simp_all add: imuMahonyAHRSupdate_feedback_def Let_def split: prod.splits)

lemma imuMahonyAHRSupdate_integral:
  "integralFBx (imuMahonyAHRSupdate s env dt gx gy gz useAcc ax ay az useMag useCOG cog kp) =
     (if 0 < dcm_ki (imuRuntimeConfig s) then
        (if sqrt (sq gx + sq gy + sq gz) < DEGREES_TO_RADIANS SPIN_RATE_LIMIT then
           integralFBx s + dcm_ki (imuRuntimeConfig s)
              * fst (imuMahonyAHRSupdate_error s env useAcc ax ay az useMag useCOG cog) * dt * useAcc
         else integralFBx s)
      else 0)"
  "integralFBy (imuMahonyAHRSupdate s env dt gx gy gz useAcc ax ay az useMag useCOG cog kp) =
     (if 0 < dcm_ki (imuRuntimeConfig s) then
        (if sqrt (sq gx + sq gy + sq gz) < DEGREES_TO_RADIANS SPIN_RATE_LIMIT then
           integralFBy s + dcm_ki (imuRuntimeConfig s)
              * fst (snd (imuMahonyAHRSupdate_error s env useAcc ax ay az useMag useCOG cog)) * dt * useAcc
         else integralFBy s)
      else 0)"
  "integralFBz (imuMahonyAHRSupdate s env dt gx gy gz useAcc ax ay az useMag useCOG cog kp) =
     (if 0 < dcm_ki (imuRuntimeConfig s) then
        (if sqrt (sq gx + sq gy + sq gz) < DEGREES_TO_RADIANS SPIN_RATE_LIMIT then
           integralFBz s + dcm_ki (imuRuntimeConfig s)
              * snd (snd (imuMahonyAHRSupdate_error s env useAcc ax ay az useMag useCOG cog)) * dt * useAcc
         else integralFBz s)
      else 0)"
  by (simp_all only: imuMahonyAHRSupdate_def Let_def imuMahonyAHRSupdate_integrate_integral
      imuMahonyAHRSupdate_feedback_integral)

lemma spin_rate_limit_radians: "DEGREES_TO_RADIANS SPIN_RATE_LIMIT = 20 * pi / 180"
  by (simp add: DEGREES_TO_RADIANS_def SPIN_RATE_LIMIT_def RAD_def M_PIf_def)

text \<open>
  Claim C4: in \<open>imuMahonyAHRSupdate\<close>, when \<open>dcm_ki > 0\<close> and the spin rate
  \<open>sqrt(gx^2 + gy^2 + gz^2)\<close> is strictly below 20 degrees per second, each axis of the
  integrator accumulates \<open>ki * e * dt * useAcc\<close>, \<open>e\<close> being the error vector of the
  call; when the spin rate is at or above 20 degrees per second the integrator is left
  unchanged; and when \<open>dcm_ki = 0\<close> the integrator is reset to zero.  The rates are in
  radians per second, 20 degrees per second being \<open>20 pi / 180\<close>.
\<close>

theorem imuMahonyAHRSupdate_integrator:
  "(let ki = dcm_ki (imuRuntimeConfig s);
        e = imuMahonyAHRSupdate_error s env useAcc ax ay az useMag useCOG courseOverGround;
        s' = imuMahonyAHRSupdate s env dt gx gy gz useAcc ax ay az useMag useCOG courseOverGround dcmKpGain;
        spin_rate = sqrt (gx * gx + gy * gy + gz * gz)
    in (0 < ki \<and> spin_rate < 20 * pi / 180 \<longrightarrow>
          integralFBx s' = integralFBx s + ki * fst e * dt * useAcc
          \<and> integralFBy s' = integralFBy s + ki * fst (snd e) * dt * useAcc
          \<and> integralFBz s' = integralFBz s + ki * snd (snd e) * dt * useAcc)
       \<and> (0 < ki \<and> 20 * pi / 180 \<le> spin_rate \<longrightarrow>
          integralFBx s' = integralFBx s \<and> integralFBy s' = integralFBy s \<and> integralFBz s' = integralFBz s)
       \<and> (ki = 0 \<longrightarrow> integralFBx s' = 0 \<and> integralFBy s' = 0 \<and> integralFBz s' = 0))"
  by (simp add: Let_def imuMahonyAHRSupdate_integral spin_rate_limit_radians sq_def)

lemma wound_error:
  "imuMahonyAHRSupdate_error wound_state bench_env 1 0 1 0 False False 0 = (1, 0, 0)"
  by (simp add: imuMahonyAHRSupdate_error_def wound_state_def boot_rMat bench_env_def Let_def
      sq_def invSqrt_def)

lemma wound_error_ki0:
  "imuMahonyAHRSupdate_error (wound_state\<lparr>imuRuntimeConfig := default_config\<lparr>dcm_ki := 0\<rparr>\<rparr>)
     bench_env 1 0 1 0 False False 0 = (1, 0, 0)"
  by (simp add: imuMahonyAHRSupdate_error_def wound_state_def boot_rMat bench_env_def Let_def
      sq_def invSqrt_def)

theorem imuMahonyAHRSupdate_integrator_witness:
  "sqrt ((1999 / 100 * pi / 180) * (1999 / 100 * pi / 180) + 0 * 0 + 0 * 0) < 20 * pi / 180
   \<and> integralFBx (imuMahonyAHRSupdate wound_state bench_env (1 / 1000) (1999 / 100 * pi / 180) 0 0
                     1 0 1 0 False False 0 (5 / 2)) = 1 / 100 + 7 / 10000000
   \<and> 20 * pi / 180 \<le> sqrt ((20 * pi / 180) * (20 * pi / 180) + 0 * 0 + 0 * 0)
   \<and> integralFBx (imuMahonyAHRSupdate wound_state bench_env (1 / 1000) (20 * pi / 180) 0 0
                     1 0 1 0 False False 0 (5 / 2)) = 1 / 100
   \<and> integralFBx (imuMahonyAHRSupdate (wound_state\<lparr>imuRuntimeConfig := default_config\<lparr>dcm_ki := 0\<rparr>\<rparr>)
                     bench_env (1 / 1000) 0 0 0 1 0 1 0 False False 0 (5 / 2)) = 0"
proof -
  have ki: "dcm_ki (imuRuntimeConfig wound_state) = 7 / 10000" "integralFBx wound_state = 1 / 100"
    by (simp_all add: wound_state_def default_config_def)
  have ki0: "dcm_ki (imuRuntimeConfig (wound_state\<lparr>imuRuntimeConfig := default_config\<lparr>dcm_ki := 0\<rparr>\<rparr>)) = 0"
    by simp
  have one_axis: "\<And>x :: real. sqrt (x * x + 0 * 0 + 0 * 0) = \<bar>x\<bar>"
    by (simp only: mult_zero_left add_0_right real_sqrt_abs2)
  have below: "sqrt ((1999 / 100 * pi / 180) * (1999 / 100 * pi / 180) + 0 * 0 + 0 * 0) < 20 * pi / 180"
    unfolding one_axis by simp
  have at: "20 * pi / 180 \<le> sqrt ((20 * pi / 180) * (20 * pi / 180) + 0 * 0 + 0 * 0)"
    unfolding one_axis by simp
  show ?thesis
    using
      imuMahonyAHRSupdate_integrator [where s = wound_state and env = bench_env
        and gx = "1999 / 100 * pi / 180" and gy = 0
        and gz = 0 and useAcc = 1 and ax = 0 and ay = 1 and az = 0 and useMag = False
        and useCOG = False and courseOverGround = 0 and dt = "1 / 1000" and dcmKpGain = "5 / 2"]
      imuMahonyAHRSupdate_integrator [where s = wound_state and env = bench_env
        and gx = "20 * pi / 180" and gy = 0
        and gz = 0 and useAcc = 1 and ax = 0 and ay = 1 and az = 0 and useMag = False
        and useCOG = False and courseOverGround = 0 and dt = "1 / 1000" and dcmKpGain = "5 / 2"]
      imuMahonyAHRSupdate_integrator [where s = "wound_state\<lparr>imuRuntimeConfig := default_config\<lparr>dcm_ki := 0\<rparr>\<rparr>"
        and env = bench_env and gx = 0 and gy = 0
        and gz = 0 and useAcc = 1 and ax = 0 and ay = 1 and az = 0 and useMag = False
        and useCOG = False and courseOverGround = 0 and dt = "1 / 1000" and dcmKpGain = "5 / 2"]
      below at
    unfolding Let_def wound_error wound_error_ki0 ki ki0
    by simp
qed

subsection \<open>Rounding and ranges\<close>

lemma atan2_approx_range: "- pi \<le> atan2_approx y x \<and> atan2_approx y x \<le> pi"
proof -
  have b: "- (pi / 2) < arctan (y / x)" "arctan (y / x) < pi / 2"
    by (rule arctan_lbound, rule arctan_ubound)
  have c: "x < 0 \<Longrightarrow> 0 \<le> y \<Longrightarrow> arctan (y / x) \<le> 0"
    by (simp add: divide_nonneg_neg arctan_le_zero_iff)
  have d: "x < 0 \<Longrightarrow> y < 0 \<Longrightarrow> 0 \<le> arctan (y / x)"
    by (simp add: divide_neg_neg less_imp_le)
  show ?thesis
    using b c d pi_gt_zero by (auto simp add: atan2_approx_def)
qed

lemma lrintf_between:
  assumes "of_int a \<le> x" "x \<le> of_int b"
  shows "a \<le> lrintf x \<and> lrintf x \<le> b"
proof -
  have fa: "a \<le> \<lfloor>x\<rfloor>"
    using assms(1) by (simp add: le_floor_iff)
  have lo: "\<lfloor>x\<rfloor> \<le> lrintf x"
    by (simp add: lrintf_def Let_def)
  have hi: "lrintf x \<le> b"
  proof (cases "x = of_int b")
    case True
    then show ?thesis by (simp add: lrintf_def Let_def)
  next
    case False
    then have "x < of_int b" using assms(2) by simp
    then have "\<lfloor>x\<rfloor> < b" by (simp add: floor_less_iff)
    then show ?thesis by (simp add: lrintf_def Let_def)
  qed
  show ?thesis using fa lo hi by simp
qed

lemma to_int16_id: "- 32768 \<le> i \<Longrightarrow> i < 32768 \<Longrightarrow> to_int16 i = i"
  unfolding to_int16_def
  by (simp add: sint_sbintrunc' signed_take_bit_int_eq_self)

lemma yaw_decidegrees:
  "- 1800 \<le> lrintf (- atan2_approx y x * (1800 / M_PIf))
   \<and> lrintf (- atan2_approx y x * (1800 / M_PIf)) \<le> 1800"
proof -
  have r: "- pi \<le> atan2_approx y x" "atan2_approx y x \<le> pi"
    using atan2_approx_range [of y x] by simp_all
  have p: "0 < pi" by simp
  have "- atan2_approx y x * (1800 / pi) \<le> 1800"
    using r(1) p by (simp add: field_simps)
  moreover have "- 1800 \<le> - atan2_approx y x * (1800 / pi)"
    using r(2) p by (simp add: field_simps)
  ultimately show ?thesis
    using lrintf_between [of "- 1800" "- atan2_approx y x * (1800 / M_PIf)" 1800]
    by (simp add: M_PIf_def)
qed

lemma lrintf_of_int: "lrintf (of_int n) = n"
  by (simp add: lrintf_def Let_def)

subsection \<open>Fields that the derived-output layer leaves alone\<close>

lemma rot_q [simp]: "q (imuComputeRotationMatrix s) = q s"
  by (simp add: imuComputeRotationMatrix_def Let_def)

lemma rot_rMat:
  "rMat (imuComputeRotationMatrix s) =
     \<lparr>r00 = 1 - 2 * (qy (q s) * qy (q s)) - 2 * (qz (q s) * qz (q s)),
      r01 = 2 * (qx (q s) * qy (q s) + - (qw (q s) * qz (q s))),
      r02 = 2 * (qx (q s) * qz (q s) - - (qw (q s) * qy (q s))),
      r10 = 2 * (qx (q s) * qy (q s) - - (qw (q s) * qz (q s))),
      r11 = 1 - 2 * (qx (q s) * qx (q s)) - 2 * (qz (q s) * qz (q s)),
      r12 = 2 * (qy (q s) * qz (q s) + - (qw (q s) * qx (q s))),
      r20 = 2 * (qx (q s) * qz (q s) + - (qw (q s) * qy (q s))),
      r21 = 2 * (qy (q s) * qz (q s) - - (qw (q s) * qx (q s))),
      r22 = 1 - 2 * (qx (q s) * qx (q s)) - 2 * (qy (q s) * qy (q s))\<rparr>"
  by (simp add: imuComputeRotationMatrix_def imuQuaternionComputeProducts_def Let_def)

lemma DEBUG_SET_attitude [simp]: "attitude (DEBUG_SET env m i v s) = attitude s"
  by (simp add: DEBUG_SET_def)

lemma applyThrustTransition_attitude [simp]: "attitude (applyThrustTransition s env) = attitude s"
  by (simp add: applyThrustTransition_def Let_def)

lemma setNewLevel_attitude [simp]: "attitude (setNewLevel s env) = attitude s"
  by (simp add: setNewLevel_def Let_def)

lemma imuUpdateEulerAngles_motor_attitude [simp]:
  "attitude (imuUpdateEulerAngles_motor env m s) = attitude s"
  by (simp add: imuUpdateEulerAngles_motor_def Let_def)

lemma imuUpdateEulerAngles_motors_attitude [simp]:
  "attitude (fold (imuUpdateEulerAngles_motor env) ms s) = attitude s"
  by (induction ms arbitrary: s) simp_all

lemma imuUpdateEulerAngles_steps_attitude [simp]:
  "attitude (imuUpdateEulerAngles_latch env s) = attitude s"
  "values_yaw (attitude (imuUpdateEulerAngles_roll_atan2 s)) = values_yaw (attitude s)"
  "values_yaw (attitude (imuUpdateEulerAngles_roll_acos s)) = values_yaw (attitude s)"
  "attitude (imuUpdateEulerAngles_angle s) = attitude s"
  "attitude (imuUpdateEulerAngles_debug env s) = attitude s"
  by (simp_all add: imuUpdateEulerAngles_latch_def imuUpdateEulerAngles_roll_atan2_def
      imuUpdateEulerAngles_roll_acos_def imuUpdateEulerAngles_angle_def
      imuUpdateEulerAngles_debug_def Let_def)

lemma imuUpdateEulerAngles_yaw_value:
  "values_yaw (attitude (imuUpdateEulerAngles s env)) =
     (let y = values_yaw (attitude (imuUpdateEulerAngles_euler s env))
      in if y < 0 then to_int16 (y + 3600) else y)"
  by (simp add: imuUpdateEulerAngles_def imuUpdateEulerAngles_yaw_def Let_def)

subsection \<open>The published yaw\<close>

lemma euler_yaw_range:
  "- 1800 \<le> values_yaw (attitude (imuUpdateEulerAngles_euler s env))
   \<and> values_yaw (attitude (imuUpdateEulerAngles_euler s env)) \<le> 1800"
proof (cases "HEADFREE_MODE env")
  case True
  let ?b = "imuQuaternionComputeProducts (headfree s) local_buffer"
  let ?v = "lrintf (- atan2_approx (2 * (wz ?b + xy ?b)) (1 - 2 * (yy ?b + zz ?b)) * (1800 / M_PIf))"
  have v: "- 1800 \<le> ?v \<and> ?v \<le> 1800" by (rule yaw_decidegrees)
  then have "to_int16 ?v = ?v" by (intro to_int16_id) simp_all
  then show ?thesis using v True by (simp add: imuUpdateEulerAngles_euler_def Let_def)
next
  case False
  let ?v = "lrintf (- atan2_approx (r10 (rMat s)) (r00 (rMat s)) * (1800 / M_PIf))"
  have v: "- 1800 \<le> ?v \<and> ?v \<le> 1800" by (rule yaw_decidegrees)
  then have "to_int16 ?v = ?v" by (intro to_int16_id) simp_all
  then show ?thesis using v False by (simp add: imuUpdateEulerAngles_euler_def Let_def)
qed

text \<open>
  Claim C8: after every execution of \<open>imuUpdateEulerAngles\<close>, in head-free mode or not,
  the published yaw satisfies \<open>attitude.values.yaw \<in> [0, 3600)\<close> decidegrees.
\<close>

theorem imuUpdateEulerAngles_yaw_range:
  "0 \<le> values_yaw (attitude (imuUpdateEulerAngles s env))
   \<and> values_yaw (attitude (imuUpdateEulerAngles s env)) < 3600"
proof -
  let ?y = "values_yaw (attitude (imuUpdateEulerAngles_euler s env))"
  have r: "- 1800 \<le> ?y \<and> ?y \<le> 1800" by (rule euler_yaw_range)
  show ?thesis
  proof (cases "?y < 0")
    case True
    have "to_int16 (?y + 3600) = ?y + 3600"
      using r True by (intro to_int16_id) simp_all
    then show ?thesis using r True by (simp add: imuUpdateEulerAngles_yaw_value Let_def)
  next
    case False
    then show ?thesis using r by (simp add: imuUpdateEulerAngles_yaw_value Let_def)
  qed
qed

lemma yawed_rMat: "r00 (rMat yawed_state) = 0" "r10 (rMat yawed_state) = 1"
  by (simp_all add: yawed_state_def imuComputeRotationMatrix_def imuQuaternionComputeProducts_def Let_def)

lemma yawed_euler: "values_yaw (attitude (imuUpdateEulerAngles_euler yawed_state bench_env)) = - 900"
proof -
  have "- atan2_approx 1 0 * (1800 / M_PIf) = of_int (- 900)"
    by (simp add: atan2_approx_def M_PIf_def)
  then have "lrintf (- atan2_approx 1 0 * (1800 / M_PIf)) = - 900"
    by (simp only: lrintf_of_int)
  then show ?thesis
    by (simp add: imuUpdateEulerAngles_euler_def bench_env_def yawed_rMat to_int16_id)
qed

theorem imuUpdateEulerAngles_yaw_range_witness:
  "values_yaw (attitude (imuUpdateEulerAngles_euler yawed_state bench_env)) = - 900
   \<and> values_yaw (attitude (imuUpdateEulerAngles yawed_state bench_env)) = 2700
   \<and> 0 \<le> values_yaw (attitude (imuUpdateEulerAngles yawed_state bench_env))
   \<and> values_yaw (attitude (imuUpdateEulerAngles yawed_state bench_env)) < 3600"
  using imuUpdateEulerAngles_yaw_range [of yawed_state bench_env]
  by (simp add: imuUpdateEulerAngles_yaw_value yawed_euler to_int16_id)

subsection \<open>Throttle angle correction\<close>

text \<open>What the function computes.\<close>

lemma calculateThrottleAngleCorrection_value:
  "calculateThrottleAngleCorrection s =
     (if r22 (rMat s) \<le> 0.015 then 0
      else lrintf (of_int (throttleAngleValue s)
             * sin (of_int (min 900 (lrintf (arccos (r22 (rMat s)) * throttleAngleScale s))) / (450 * pi))))"
  by (simp add: calculateThrottleAngleCorrection_def getCosTiltAngle_def Let_def sin_approx_def
      acos_approx_def M_PIf_def min_def)

lemma tilted_fields:
  "getCosTiltAngle tilted_state = 1 / 2"
  "throttleAngleScale tilted_state = 1800 / pi"
  "throttleAngleValue tilted_state = 100"
  by (simp_all add: tilted_state_def getCosTiltAngle_def imuComputeRotationMatrix_def Let_def
      imuQuaternionComputeProducts_def calculateThrottleAngleScale_def M_PIf_def)

lemma arccos_half: "arccos (1 / 2) = pi / 3"
proof -
  have "arccos (cos (pi / 3)) = pi / 3"
    by (rule arccos_cos) simp_all
  then show ?thesis by (simp add: cos_60)
qed

lemma tilted_value:
  "calculateThrottleAngleCorrection tilted_state = lrintf (100 * sin (4 / (3 * pi)))"
proof -
  have a: "lrintf (acos_approx (1 / 2) * 1800 / pi) = 600"
  proof -
    have "acos_approx (1 / 2) * 1800 / pi = of_int 600"
      by (simp add: acos_approx_def arccos_half)
    then show ?thesis by (simp only: lrintf_of_int)
  qed
  have b: "(600 :: real) / (900 * pi / 2) = 4 / (3 * pi)"
    by simp
  show ?thesis
    by (simp add: calculateThrottleAngleCorrection_def tilted_fields a Let_def sin_approx_def M_PIf_def)
qed

text \<open>
  Claim C7 (0 when \<open>R[2][2] \<le> 0.015\<close>; otherwise
  \<open>throttle_correction_value * sin(angle * pi / 1800)\<close> of the angle
  \<open>acos(R[2][2]) * throttleAngleScale\<close> clamped to 900) does not hold of the code in its
  last part.  At a tilt of 60 degrees (\<open>R[2][2] = 1/2\<close>), with the scale of a correction
  angle of 900 and a correction value of 100, the angle is 600; the code returns
  \<open>lrintf (100 * sin (600 / (900 * pi / 2)))\<close>, which is at most 67, where
  \<open>100 * sin (600 * pi / 1800)\<close> rounds to at least 86.
\<close>

theorem calculateThrottleAngleCorrection_wrong_scale:
  "getCosTiltAngle tilted_state = 1 / 2
   \<and> calculateThrottleAngleCorrection tilted_state = lrintf (100 * sin (4 / (3 * pi)))
   \<and> calculateThrottleAngleCorrection tilted_state \<le> 67
   \<and> 86 \<le> lrintf (100 * sin (600 * pi / 1800))"
proof -
  have p: "0 < pi" by simp
  have "sin (4 / (3 * pi)) \<le> 4 / (3 * pi)"
    by (rule sin_x_le_x) simp
  also have "\<dots> \<le> 2 / 3"
    using pi_ge_two p by (simp add: field_simps)
  finally have "100 * sin (4 / (3 * pi)) \<le> of_int 67"
    by simp
  moreover have "of_int (- 100) \<le> 100 * sin (4 / (3 * pi))"
    using sin_ge_minus_one [of "4 / (3 * pi)"] by simp
  ultimately have le: "lrintf (100 * sin (4 / (3 * pi))) \<le> 67"
    using lrintf_between [of "- 100" "100 * sin (4 / (3 * pi))" 67] by simp
  have s60: "sin (600 * pi / 1800) = sqrt 3 / 2"
    using sin_60 by simp
  have "(43 / 25)\<^sup>2 \<le> (3 :: real)"
    by (simp add: power2_eq_square)
  then have "43 / 25 \<le> sqrt 3"
    by (rule real_le_rsqrt)
  then have "of_int 86 \<le> 100 * sin (600 * pi / 1800)"
    unfolding s60 by simp
  moreover have "100 * sin (600 * pi / 1800) \<le> of_int 100"
    using sin_le_one [of "600 * pi / 1800"] by simp
  ultimately have ge: "86 \<le> lrintf (100 * sin (600 * pi / 1800))"
    using lrintf_between [of 86 "100 * sin (600 * pi / 1800)" 100] by simp
  show ?thesis
    using le ge by (simp add: tilted_fields tilted_value)
qed

subsection \<open>GPS heading initialisation\<close>

text \<open>The nine products that \<open>imuComputeQuaternionFromRPY\<close> stores in \<open>qP\<close> are
  overwritten by \<open>imuComputeRotationMatrix\<close>, which recomputes \<open>qP\<close> from \<open>q\<close>: the
  three angles have no effect on the state.\<close>

lemma imuComputeQuaternionFromRPY_ignores_angles:
  "imuComputeQuaternionFromRPY s r p y = (imuComputeRotationMatrix s)\<lparr>attitudeIsEstablished := True\<rparr>"
  by (simp add: imuComputeQuaternionFromRPY_def imuComputeRotationMatrix_def
      imuQuaternionComputeProducts_def Let_def)

lemma gps_first:
  assumes "\<not> useMag" "SENSOR_GPS env" "GPS_FIX env" "5 \<le> numSat env" "500 \<le> unat (groundSpeed env)"
    "\<not> initialized s"
  shows "imuCalculateEstimatedAttitude_gps s env useMag =
           (False, DECIDEGREES_TO_RADIANS (real (unat (groundCourse env))),
            (imuComputeRotationMatrix (s\<lparr>initialized := True\<rparr>))\<lparr>attitudeIsEstablished := True\<rparr>)"
  using assms
  by (simp add: imuCalculateEstimatedAttitude_gps_def shouldInitializeGPSHeading_def
      GPS_COG_MIN_GROUNDSPEED_def imuComputeQuaternionFromRPY_ignores_angles Let_def)

lemma imuCalcKpGain_snd: "snd (imuCalcKpGain s env t u g) = snd (imuCalcKpGain_reset s env t u g)"
  by (simp add: imuCalcKpGain_def Let_def split: prod.splits)

lemma gps_env_fields:
  "SENSOR_MAG gps_env = False" "SENSOR_GPS gps_env" "GPS_FIX gps_env" "numSat gps_env = 8"
  "groundSpeed gps_env = 600" "groundCourse gps_env = 900" "HEADFREE_MODE gps_env = False"
  "magADC gps_env = (\<lambda>_. 0)" "gyroGetAccumulationAverage gps_env = (\<lambda>_. 0)"
  "accGetAccumulationAverage gps_env = (True, (\<lambda>i. if i = 2 then 2048 else 0))"
  "acc_1G_rec gps_env = 1 / 2048" "ARMED gps_env = False"
  by (simp_all add: gps_env_def bench_env_def)

lemma configured_fields:
  "q configured_state = QUATERNION_INITIALIZE"
  "integralFBx configured_state = 0" "integralFBy configured_state = 0" "integralFBz configured_state = 0"
  "initialized configured_state = False"
  "imuRuntimeConfig configured_state = default_config"
  "previousIMUUpdateTime configured_state = 0"
  by (simp_all add: configured_state_def boot_state_def imuComputeRotationMatrix_def Let_def)

lemma healthy_one: "imuIsAccelerometerHealthy (\<lambda>i. if i = 2 then 2048 else 0) (1 / 2048) = 1"
  by (simp add: imuIsAccelerometerHealthy_def upt_3 Let_def scaleRangef_def sq_def)

lemma filter_fields_update [simp]:
  "filter_fields (s\<lparr>qM := v1\<rparr>) = filter_fields s"
  "filter_fields (s\<lparr>qLM := v2\<rparr>) = filter_fields s"
  "filter_fields (s\<lparr>qTM := v3\<rparr>) = filter_fields s"
  "filter_fields (s\<lparr>thrust := v4\<rparr>) = filter_fields s"
  "filter_fields (s\<lparr>pitch := v5\<rparr>) = filter_fields s"
  "filter_fields (s\<lparr>roll := v6\<rparr>) = filter_fields s"
  "filter_fields (s\<lparr>debug := v7\<rparr>) = filter_fields s"
  "filter_fields (s\<lparr>attitude := v8\<rparr>) = filter_fields s"
  "filter_fields (s\<lparr>changedToAngle := v9\<rparr>) = filter_fields s"
  "filter_fields (s\<lparr>motorsSetup := v10\<rparr>) = filter_fields s"
  "filter_fields (s\<lparr>inAngleMode := v11\<rparr>) = filter_fields s"
  "filter_fields (s\<lparr>qPA := v12\<rparr>) = filter_fields s"
  "filter_fields (s\<lparr>qA := v13\<rparr>) = filter_fields s"
  "filter_fields (s\<lparr>anglePitch := v14\<rparr>) = filter_fields s"
  "filter_fields (s\<lparr>angleRoll := v15\<rparr>) = filter_fields s"
  "filter_fields (s\<lparr>qPThrustTranslation := v16\<rparr>) = filter_fields s"
  "filter_fields (s\<lparr>translationThrustFix := v17\<rparr>) = filter_fields s"
  "filter_fields (s\<lparr>attitudeIsEstablished := v18\<rparr>) = filter_fields s"
  "filter_fields (s\<lparr>accAverage := v19\<rparr>) = filter_fields s"
  by (simp_all add: filter_fields_def)

lemma filter_fields_DEBUG_SET [simp]: "filter_fields (DEBUG_SET env m i v s) = filter_fields s"
  by (simp add: DEBUG_SET_def)

lemma filter_fields_steps [simp]:
  "filter_fields (applyThrustTransition s env) = filter_fields s"
  "filter_fields (setNewLevel s env) = filter_fields s"
  "filter_fields (imuUpdateEulerAngles_motor env n s) = filter_fields s"
  "filter_fields (imuUpdateEulerAngles_latch env s) = filter_fields s"
  "filter_fields (imuUpdateEulerAngles_roll_atan2 s) = filter_fields s"
  "filter_fields (imuUpdateEulerAngles_roll_acos s) = filter_fields s"
  "filter_fields (imuUpdateEulerAngles_angle s) = filter_fields s"
  "filter_fields (imuUpdateEulerAngles_debug env s) = filter_fields s"
  "filter_fields (imuUpdateEulerAngles_yaw s) = filter_fields s"
  "filter_fields (imuUpdateEulerAngles_euler s env) = filter_fields s"
  by (simp_all add: applyThrustTransition_def setNewLevel_def
      imuUpdateEulerAngles_motor_def imuUpdateEulerAngles_latch_def imuUpdateEulerAngles_roll_atan2_def
      imuUpdateEulerAngles_roll_acos_def imuUpdateEulerAngles_angle_def imuUpdateEulerAngles_debug_def
      imuUpdateEulerAngles_yaw_def imuUpdateEulerAngles_euler_def Let_def)

lemma filter_fields_motors [simp]:
  "filter_fields (fold (imuUpdateEulerAngles_motor env) ms s) = filter_fields s"
  by (induction ms arbitrary: s) simp_all

lemma filter_fields_imuUpdateEulerAngles:
  "filter_fields (imuUpdateEulerAngles s env) = filter_fields s"
  by (simp add: imuUpdateEulerAngles_def Let_def)

lemma filter_fields_rot:
  "filter_fields (imuComputeRotationMatrix s) =
     (q s, rMat (imuComputeRotationMatrix s), (integralFBx s, integralFBy s, integralFBz s),
      imuRuntimeConfig s, initialized s, previousIMUUpdateTime s,
      (lastArmState s, gyroQuietPeriodTimeEnd s, attitudeResetTimeEnd s, attitudeResetCompleted s))"
  by (simp add: filter_fields_def) (simp add: imuComputeRotationMatrix_def Let_def)

lemma filter_fields_recovery [simp]:
  "filter_fields (imuHandleLevelRecovery s env t) = filter_fields s"
  by (simp add: imuHandleLevelRecovery_def upt_3 Let_def filter_fields_def)

lemma recovery_disarmed:
  "\<not> ARMED env \<Longrightarrow> levelRecoveryActive (imuHandleLevelRecovery s env t) = False"
  by (simp add: imuHandleLevelRecovery_def Let_def)

lemma recovery_acc [simp]: "accAverage (imuHandleLevelRecovery s env t) = accAverage s"
  by (simp add: imuHandleLevelRecovery_def upt_3 Let_def)

lemma kp_at_rest:
  assumes "\<not> ARMED env" "\<not> levelRecoveryActive s"
    "lastArmState s = False" "gyroQuietPeriodTimeEnd s = 0" "attitudeResetTimeEnd s = 0"
    "attitudeResetCompleted s = False"
  shows "fst (imuCalcKpGain s env t u g) = dcm_kp (imuRuntimeConfig s) * 10"
    and "filter_fields (snd (imuCalcKpGain s env t u g)) = filter_fields s"
    and "accAverage (snd (imuCalcKpGain s env t u g)) = accAverage s"
  using assms
  by (simp_all add: imuCalcKpGain_value imuCalcKpGain_reset_active_iff imuCalcKpGain_snd
      imuCalcKpGain_reset_def filter_fields_def Let_def)

lemma gps_later:
  assumes "\<not> useMag" "SENSOR_GPS env" "GPS_FIX env" "5 \<le> numSat env" "500 \<le> unat (groundSpeed env)"
    "initialized s"
  shows "imuCalculateEstimatedAttitude_gps s env useMag =
           (True, DECIDEGREES_TO_RADIANS (real (unat (groundCourse env))), s)"
  using assms
  by (simp add: imuCalculateEstimatedAttitude_gps_def shouldInitializeGPSHeading_def
      GPS_COG_MIN_GROUNDSPEED_def Let_def)

lemma tick_at_rest:
  assumes ff: "filter_fields s =
      (QUATERNION_INITIALIZE, unit_matrix, (0, 0, 0), default_config, init, t0, (False, 0, 0, False))"
  shows "\<exists>s5. filter_fields s5 =
            (QUATERNION_INITIALIZE, unit_matrix, (0, 0, 0), default_config, True, t, (False, 0, 0, False))
          \<and> imuCalculateEstimatedAttitude s gps_env t =
              imuUpdateEulerAngles
                (imuMahonyAHRSupdate s5 gps_env (of_int (sint (t - t0)) * 0.000001) 0 0 0 1 0 0 2048
                   False init (DECIDEGREES_TO_RADIANS 900) (5 / 2)) gps_env"
proof -
  have f: "q s = QUATERNION_INITIALIZE" "rMat s = unit_matrix"
    "integralFBx s = 0" "integralFBy s = 0" "integralFBz s = 0"
    "imuRuntimeConfig s = default_config" "initialized s = init" "previousIMUUpdateTime s = t0"
    "lastArmState s = False" "gyroQuietPeriodTimeEnd s = 0" "attitudeResetTimeEnd s = 0"
    "attitudeResetCompleted s = False"
    using ff by (simp_all add: filter_fields_def)
  define s1 where "s1 = s\<lparr>previousIMUUpdateTime := t\<rparr>"
  define s2 where "s2 = (if init then s1
                         else (imuComputeRotationMatrix (s1\<lparr>initialized := True\<rparr>))\<lparr>attitudeIsEstablished := True\<rparr>)"
  define s3 where "s3 = s2\<lparr>accAverage := (\<lambda>i. if i = 2 then 2048 else (0 :: real))\<rparr>"
  define s4 where "s4 = imuHandleLevelRecovery s3 gps_env t"
  define s5 where "s5 = snd (imuCalcKpGain s4 gps_env t 1 (\<lambda>_. 0))"
  have g: "imuCalculateEstimatedAttitude_gps s1 gps_env False = (init, DECIDEGREES_TO_RADIANS 900, s2)"
  proof (cases init)
    case True
    then show ?thesis
      using gps_later [of False gps_env s1]
      by (simp add: gps_env_fields s1_def s2_def f)
  next
    case False
    then show ?thesis
      using gps_first [of False gps_env s1]
      by (simp add: gps_env_fields s1_def s2_def f)
  qed
  have ff2: "filter_fields s2 =
      (QUATERNION_INITIALIZE, unit_matrix, (0, 0, 0), default_config, True, t, (False, 0, 0, False))"
  proof (cases init)
    case True
    then show ?thesis
      by (simp add: s2_def s1_def filter_fields_def f)
  next
    case False
    then show ?thesis
      by (simp add: s2_def s1_def filter_fields_rot rot_rMat f QUATERNION_INITIALIZE_def)
  qed
  have ff4: "filter_fields s4 = filter_fields s2"
    by (simp add: s4_def s3_def)
  have f4: "lastArmState s4 = False" "gyroQuietPeriodTimeEnd s4 = 0" "attitudeResetTimeEnd s4 = 0"
    "attitudeResetCompleted s4 = False" "imuRuntimeConfig s4 = default_config"
    using ff4 ff2 by (simp_all add: filter_fields_def)
  have l4: "\<not> levelRecoveryActive s4"
    by (simp add: s4_def recovery_disarmed gps_env_fields)
  have kp: "fst (imuCalcKpGain s4 gps_env t 1 (\<lambda>_. 0)) = 5 / 2"
    using kp_at_rest(1) [of gps_env s4 t 1 "\<lambda>_. 0"] l4 f4
    by (simp add: gps_env_fields default_config_def)
  have ff5: "filter_fields s5 = filter_fields s2"
    using kp_at_rest(2) [of gps_env s4 t 1 "\<lambda>_. 0"] l4 f4 ff4
    by (simp add: gps_env_fields s5_def)
  have acc5: "accAverage s5 = (\<lambda>i. if i = 2 then 2048 else 0)"
    using kp_at_rest(3) [of gps_env s4 t 1 "\<lambda>_. 0"] l4 f4
    by (simp add: gps_env_fields s5_def s4_def s3_def)
  have kps: "imuCalcKpGain s4 gps_env t 1 (\<lambda>_. 0) = (5 / 2, s5)"
    using kp by (simp add: s5_def prod_eq_iff)
  have cfg2: "imuRuntimeConfig s2 = default_config"
    using ff2 by (simp add: filter_fields_def)
  have tick: "imuCalculateEstimatedAttitude s gps_env t =
      imuUpdateEulerAngles
        (imuMahonyAHRSupdate s5 gps_env (of_int (sint (t - t0)) * 0.000001) 0 0 0 1 0 0 2048
           False init (DECIDEGREES_TO_RADIANS 900) (5 / 2)) gps_env"
    unfolding imuCalculateEstimatedAttitude_def
    by (simp add: Let_def gps_env_fields f s1_def [symmetric] g s3_def [symmetric]
        healthy_one cfg2 default_config_def s4_def [symmetric] kps acc5 DEGREES_TO_RADIANS_def)
  show ?thesis
    using ff5 ff2 tick by auto
qed

lemma filter_fields_feedback:
  "filter_fields (imuMahonyAHRSupdate_feedback s spin e dt u) =
     (q s, rMat s,
      (integralFBx (imuMahonyAHRSupdate_feedback s spin e dt u),
       integralFBy (imuMahonyAHRSupdate_feedback s spin e dt u),
       integralFBz (imuMahonyAHRSupdate_feedback s spin e dt u)),
      snd (snd (snd (filter_fields s))))"
  by (simp add: imuMahonyAHRSupdate_feedback_def filter_fields_def Let_def split: prod.splits)

lemma feedback_q: "q (imuMahonyAHRSupdate_feedback s spin e dt u) = q s"
  by (simp add: imuMahonyAHRSupdate_feedback_def Let_def split: prod.splits)

lemma filter_fields_integrate:
  "filter_fields (imuMahonyAHRSupdate_integrate s dt gx gy gz u e kp) =
     (q (imuMahonyAHRSupdate_integrate s dt gx gy gz u e kp),
      rMat (imuMahonyAHRSupdate_integrate s dt gx gy gz u e kp),
      snd (snd (filter_fields s)))"
  by (simp add: imuMahonyAHRSupdate_integrate_def filter_fields_def Let_def
      imuComputeRotationMatrix_def split: prod.splits)

lemma integrate_orientation:
  "q (imuMahonyAHRSupdate_integrate s dt gx gy gz u (ex, ey, ez) kp) =
     (let gx1 = (gx + (kp * ex * u + integralFBx s)) * (0.5 * dt);
          gy1 = (gy + (kp * ey * u + integralFBy s)) * (0.5 * dt);
          gz1 = (gz + (kp * ez * u + integralFBz s)) * (0.5 * dt);
          w1 = qw (q s) + (- qx (q s) * gx1 - qy (q s) * gy1 - qz (q s) * gz1);
          x1 = qx (q s) + (qw (q s) * gx1 + qy (q s) * gz1 - qz (q s) * gy1);
          y1 = qy (q s) + (qw (q s) * gy1 - qx (q s) * gz1 + qz (q s) * gx1);
          z1 = qz (q s) + (qw (q s) * gz1 + qx (q s) * gy1 - qy (q s) * gx1);
          recipNorm = invSqrt (sq w1 + sq x1 + sq y1 + sq z1)
      in \<lparr>qw = w1 * recipNorm, qx = x1 * recipNorm, qy = y1 * recipNorm, qz = z1 * recipNorm\<rparr>)"
  by (simp add: imuMahonyAHRSupdate_integrate_def Let_def)

lemma integrate_matrix:
  "rMat (imuMahonyAHRSupdate_integrate s dt gx gy gz u e kp) =
     (let a = q (imuMahonyAHRSupdate_integrate s dt gx gy gz u e kp)
      in \<lparr>r00 = 1 - 2 * (qy a * qy a) - 2 * (qz a * qz a),
          r01 = 2 * (qx a * qy a + - (qw a * qz a)),
          r02 = 2 * (qx a * qz a - - (qw a * qy a)),
          r10 = 2 * (qx a * qy a - - (qw a * qz a)),
          r11 = 1 - 2 * (qx a * qx a) - 2 * (qz a * qz a),
          r12 = 2 * (qy a * qz a + - (qw a * qx a)),
          r20 = 2 * (qx a * qz a + - (qw a * qy a)),
          r21 = 2 * (qy a * qz a - - (qw a * qx a)),
          r22 = 1 - 2 * (qx a * qx a) - 2 * (qy a * qy a)\<rparr>)"
  by (simp add: imuMahonyAHRSupdate_integrate_def Let_def rot_rMat split: prod.splits)

lemma invSqrt_sq2048: "invSqrt 4194304 = 1 / 2048"
proof -
  have "sqrt 4194304 = 2048"
    by (rule real_sqrt_unique) simp_all
  then show ?thesis
    by (simp add: invSqrt_def)
qed

lemma mahony_at_rest:
  assumes "filter_fields s = (QUATERNION_INITIALIZE, unit_matrix, (0, 0, 0), default_config, i, t, st)"
  shows "filter_fields (imuMahonyAHRSupdate s gps_env dt 0 0 0 1 0 0 2048 False False cog kp)
           = filter_fields s"
proof -
  have f: "q s = QUATERNION_INITIALIZE" "rMat s = unit_matrix"
    "integralFBx s = 0" "integralFBy s = 0" "integralFBz s = 0"
    "imuRuntimeConfig s = default_config"
    using assms by (simp_all add: filter_fields_def)
  have e: "imuMahonyAHRSupdate_error s gps_env 1 0 0 2048 False False cog = (0, 0, 0)"
    by (simp add: imuMahonyAHRSupdate_error_def f gps_env_fields Let_def sq_def invSqrt_sq2048)
  define s1 where "s1 = imuMahonyAHRSupdate_feedback s (sqrt (sq 0 + sq 0 + sq 0)) (0, 0, 0) dt 1"
  have i1: "integralFBx s1 = 0" "integralFBy s1 = 0" "integralFBz s1 = 0"
    by (simp_all add: s1_def imuMahonyAHRSupdate_feedback_integral f)
  have ff1: "filter_fields s1 = filter_fields s"
    using assms i1 by (simp add: s1_def filter_fields_feedback f)
  have q1: "q s1 = QUATERNION_INITIALIZE"
    using ff1 assms by (simp add: filter_fields_def)
  have q2: "q (imuMahonyAHRSupdate_integrate s1 dt 0 0 0 1 (0, 0, 0) kp) = QUATERNION_INITIALIZE"
    by (simp add: integrate_orientation i1 q1 Let_def sq_def invSqrt_def QUATERNION_INITIALIZE_def)
  have r2: "rMat (imuMahonyAHRSupdate_integrate s1 dt 0 0 0 1 (0, 0, 0) kp) = unit_matrix"
    by (simp add: integrate_matrix q2 Let_def QUATERNION_INITIALIZE_def)
  have "filter_fields (imuMahonyAHRSupdate_integrate s1 dt 0 0 0 1 (0, 0, 0) kp) = filter_fields s"
    using ff1 assms by (simp add: filter_fields_integrate q2 r2)
  then show ?thesis
    by (simp add: imuMahonyAHRSupdate_def e Let_def s1_def)
qed

lemma course_quarter:
  "courseOverGround_up (courseOverGround_down (DECIDEGREES_TO_RADIANS 900)) = pi / 2"
proof -
  have a: "DECIDEGREES_TO_RADIANS 900 = pi / 2"
    by (simp add: DECIDEGREES_TO_RADIANS_def RAD_def M_PIf_def)
  have b: "courseOverGround_down (pi / 2) = pi / 2"
    by (subst courseOverGround_down.simps) (simp add: M_PIf_def)
  have c: "courseOverGround_up (pi / 2) = pi / 2"
    by (subst courseOverGround_up.simps) (simp add: M_PIf_def)
  show ?thesis
    by (simp only: a b c)
qed

lemma mahony_with_course:
  assumes "filter_fields s = (QUATERNION_INITIALIZE, unit_matrix, (0, 0, 0), default_config, i, t, st)"
  shows "0 < r00 (rMat (imuMahonyAHRSupdate s gps_env (1 / 1000) 0 0 0 1 0 0 2048 False True
                          (DECIDEGREES_TO_RADIANS 900) (5 / 2)))"
    and "r10 (rMat (imuMahonyAHRSupdate s gps_env (1 / 1000) 0 0 0 1 0 0 2048 False True
                          (DECIDEGREES_TO_RADIANS 900) (5 / 2))) \<le> 0"
    and "- r00 (rMat (imuMahonyAHRSupdate s gps_env (1 / 1000) 0 0 0 1 0 0 2048 False True
                          (DECIDEGREES_TO_RADIANS 900) (5 / 2)))
         \<le> r10 (rMat (imuMahonyAHRSupdate s gps_env (1 / 1000) 0 0 0 1 0 0 2048 False True
                          (DECIDEGREES_TO_RADIANS 900) (5 / 2)))"
proof -
  have f: "q s = QUATERNION_INITIALIZE" "rMat s = unit_matrix"
    "integralFBx s = 0" "integralFBy s = 0" "integralFBz s = 0"
    "imuRuntimeConfig s = default_config"
    using assms by (simp_all add: filter_fields_def)
  have e: "imuMahonyAHRSupdate_error s gps_env 1 0 0 2048 False True (DECIDEGREES_TO_RADIANS 900) = (0, 0, - 1)"
    by (simp add: imuMahonyAHRSupdate_error_def f gps_env_fields Let_def sq_def invSqrt_sq2048
        course_quarter sin_approx_def cos_approx_def)
  define s1 where "s1 = imuMahonyAHRSupdate_feedback s (sqrt (sq 0 + sq 0 + sq 0)) (0, 0, - 1) (1 / 1000) 1"
  have lim: "(0 :: real) < DEGREES_TO_RADIANS SPIN_RATE_LIMIT"
    by (simp add: spin_rate_limit_radians)
  have i1: "integralFBx s1 = 0" "integralFBy s1 = 0" "integralFBz s1 = - (7 / 10000000)"
    using lim by (simp_all add: s1_def imuMahonyAHRSupdate_feedback_integral f default_config_def sq_def)
  have q1: "q s1 = QUATERNION_INITIALIZE"
    by (simp add: s1_def feedback_q f)
  define g :: real where "g = - (25000007 / 20000000000)"
  define rn where "rn = invSqrt (1 + g * g)"
  have q2: "q (imuMahonyAHRSupdate_integrate s1 (1 / 1000) 0 0 0 1 (0, 0, - 1) (5 / 2))
              = \<lparr>qw = rn, qx = 0, qy = 0, qz = g * rn\<rparr>"
    by (simp add: integrate_orientation i1 q1 Let_def sq_def QUATERNION_INITIALIZE_def rn_def g_def)
  have n: "0 < 1 + g * g"
    by (simp add: g_def)
  have rn2: "rn * rn = 1 / (1 + g * g)"
  proof -
    have "sqrt (1 + g * g) * sqrt (1 + g * g) = 1 + g * g"
      using n by simp
    then show ?thesis
      by (simp add: rn_def invSqrt_def)
  qed
  have r00: "r00 (rMat (imuMahonyAHRSupdate_integrate s1 (1 / 1000) 0 0 0 1 (0, 0, - 1) (5 / 2)))
               = 1 - 2 * (g * g) * (rn * rn)"
    by (simp add: integrate_matrix q2 Let_def algebra_simps)
  have r10: "r10 (rMat (imuMahonyAHRSupdate_integrate s1 (1 / 1000) 0 0 0 1 (0, 0, - 1) (5 / 2)))
               = 2 * g * (rn * rn)"
    by (simp add: integrate_matrix q2 Let_def algebra_simps)
  have m: "imuMahonyAHRSupdate s gps_env (1 / 1000) 0 0 0 1 0 0 2048 False True
             (DECIDEGREES_TO_RADIANS 900) (5 / 2)
           = imuMahonyAHRSupdate_integrate s1 (1 / 1000) 0 0 0 1 (0, 0, - 1) (5 / 2)"
    by (simp add: imuMahonyAHRSupdate_def e Let_def s1_def)
  show "0 < r00 (rMat (imuMahonyAHRSupdate s gps_env (1 / 1000) 0 0 0 1 0 0 2048 False True
                          (DECIDEGREES_TO_RADIANS 900) (5 / 2)))"
    unfolding m r00 rn2 by (simp add: g_def)
  show "r10 (rMat (imuMahonyAHRSupdate s gps_env (1 / 1000) 0 0 0 1 0 0 2048 False True
                          (DECIDEGREES_TO_RADIANS 900) (5 / 2))) \<le> 0"
    unfolding m r10 rn2 by (simp add: g_def)
  show "- r00 (rMat (imuMahonyAHRSupdate s gps_env (1 / 1000) 0 0 0 1 0 0 2048 False True
                          (DECIDEGREES_TO_RADIANS 900) (5 / 2)))
         \<le> r10 (rMat (imuMahonyAHRSupdate s gps_env (1 / 1000) 0 0 0 1 0 0 2048 False True
                          (DECIDEGREES_TO_RADIANS 900) (5 / 2)))"
    unfolding m r00 r10 rn2 by (simp add: g_def)
qed

lemma yaw_of_small_turn:
  assumes "0 < c" "s \<le> 0" "- c \<le> s"
  shows "0 \<le> lrintf (- atan2_approx s c * (1800 / M_PIf))
         \<and> lrintf (- atan2_approx s c * (1800 / M_PIf)) \<le> 450"
proof -
  have a: "atan2_approx s c = arctan (s / c)"
    using assms(1) by (simp add: atan2_approx_def)
  have "- 1 \<le> s / c"
    using assms by (simp add: field_simps)
  then have "arctan (- 1) \<le> arctan (s / c)"
    by (rule arctan_monotone')
  then have lo: "- (pi / 4) \<le> arctan (s / c)"
    by (simp add: arctan_minus arctan_one)
  have "s / c \<le> 0"
    using assms by (simp add: divide_nonpos_pos)
  then have hi: "arctan (s / c) \<le> 0"
    by simp
  have p: "0 < pi" by simp
  have "of_int 0 \<le> - arctan (s / c) * (1800 / pi)"
    using hi p by (simp add: field_simps)
  moreover have "- arctan (s / c) * (1800 / pi) \<le> of_int 450"
    using lo p by (simp add: field_simps)
  ultimately show ?thesis
    using lrintf_between [of 0 "- arctan (s / c) * (1800 / pi)" 450]
    by (simp add: a M_PIf_def)
qed

lemma configured_at_rest:
  "filter_fields configured_state =
     (QUATERNION_INITIALIZE, unit_matrix, (0, 0, 0), default_config, False, 0, (False, 0, 0, False))"
  by (simp add: filter_fields_def configured_state_def boot_rMat boot_q)
     (simp add: boot_state_def imuComputeRotationMatrix_def Let_def)

text \<open>
  Claim C2 (on the first tick on which \<open>useCOG\<close> becomes true the orientation is
  initialised anew from the current roll, the current pitch and the GPS ground course,
  so that the yaw published on the following tick equals the ground course, and no COG
  correction is applied during that tick) does not hold of the code in its first part.
  From the boot state, on the bench, with a ground course of 90 degrees: the first tick
  passes \<open>useCOG\<close> as false and marks the heading as initialised, but the orientation
  it leaves is the identity, the rotation matrix the unit matrix, and the yaw it
  publishes is 0; the yaw that the following tick publishes is at most 450, not 900.
\<close>

theorem imuCalculateEstimatedAttitude_heading_not_initialized:
  "fst (imuCalculateEstimatedAttitude_gps configured_state gps_env False) = False
   \<and> groundCourse gps_env = 900
   \<and> q (imuCalculateEstimatedAttitude configured_state gps_env 1000) = QUATERNION_INITIALIZE
   \<and> rMat (imuCalculateEstimatedAttitude configured_state gps_env 1000) = unit_matrix
   \<and> initialized (imuCalculateEstimatedAttitude configured_state gps_env 1000)
   \<and> values_yaw (attitude (imuCalculateEstimatedAttitude configured_state gps_env 1000)) = 0
   \<and> values_yaw (attitude (imuCalculateEstimatedAttitude
                              (imuCalculateEstimatedAttitude configured_state gps_env 1000)
                              gps_env 2000)) \<le> 450"
proof -
  let ?T1 = "imuCalculateEstimatedAttitude configured_state gps_env 1000"
  have g0: "imuCalculateEstimatedAttitude_gps configured_state gps_env False =
              (False, DECIDEGREES_TO_RADIANS (real (unat (groundCourse gps_env))),
               (imuComputeRotationMatrix (configured_state\<lparr>initialized := True\<rparr>))\<lparr>attitudeIsEstablished := True\<rparr>)"
    by (rule gps_first) (simp_all add: gps_env_fields configured_fields)
  obtain a where a: "filter_fields a =
        (QUATERNION_INITIALIZE, unit_matrix, (0, 0, 0), default_config, True, 1000, (False, 0, 0, False))"
      and t1: "?T1 = imuUpdateEulerAngles
                (imuMahonyAHRSupdate a gps_env (of_int (sint (1000 - 0 :: 32 word)) * 0.000001) 0 0 0 1 0 0 2048
                   False False (DECIDEGREES_TO_RADIANS 900) (5 / 2)) gps_env"
    using tick_at_rest [OF configured_at_rest, of 1000] by blast
  let ?M1 = "imuMahonyAHRSupdate a gps_env (1 / 1000) 0 0 0 1 0 0 2048
               False False (DECIDEGREES_TO_RADIANS 900) (5 / 2)"
  have dt1: "of_int (sint (1000 - 0 :: 32 word)) * (0.000001 :: real) = 1 / 1000"
    by simp
  have t1': "?T1 = imuUpdateEulerAngles ?M1 gps_env"
    using t1 unfolding dt1 .
  have m1: "filter_fields ?M1 = filter_fields a"
    by (rule mahony_at_rest [OF a])
  have ff1: "filter_fields ?T1 =
        (QUATERNION_INITIALIZE, unit_matrix, (0, 0, 0), default_config, True, 1000, (False, 0, 0, False))"
    unfolding t1' by (simp only: filter_fields_imuUpdateEulerAngles m1 a)
  have r1: "rMat ?M1 = unit_matrix"
    using m1 a by (simp add: filter_fields_def)
  have y1: "values_yaw (attitude ?T1) = 0"
    unfolding t1'
    by (simp add: imuUpdateEulerAngles_yaw_value imuUpdateEulerAngles_euler_def gps_env_fields r1
        Let_def atan2_approx_def lrintf_def to_int16_def)
  obtain b where b: "filter_fields b =
        (QUATERNION_INITIALIZE, unit_matrix, (0, 0, 0), default_config, True, 2000, (False, 0, 0, False))"
      and t2: "imuCalculateEstimatedAttitude ?T1 gps_env 2000 = imuUpdateEulerAngles
                (imuMahonyAHRSupdate b gps_env (of_int (sint (2000 - 1000 :: 32 word)) * 0.000001) 0 0 0 1 0 0 2048
                   False True (DECIDEGREES_TO_RADIANS 900) (5 / 2)) gps_env"
    using tick_at_rest [OF ff1, of 2000] by blast
  have dt: "of_int (sint (2000 - 1000 :: 32 word)) * (0.000001 :: real) = 1 / 1000"
    by simp
  let ?M2 = "imuMahonyAHRSupdate b gps_env (1 / 1000) 0 0 0 1 0 0 2048
               False True (DECIDEGREES_TO_RADIANS 900) (5 / 2)"
  have yb: "0 \<le> lrintf (- atan2_approx (r10 (rMat ?M2)) (r00 (rMat ?M2)) * (1800 / M_PIf))
            \<and> lrintf (- atan2_approx (r10 (rMat ?M2)) (r00 (rMat ?M2)) * (1800 / M_PIf)) \<le> 450"
    by (rule yaw_of_small_turn) (rule mahony_with_course [OF b])+
  then have "to_int16 (lrintf (- atan2_approx (r10 (rMat ?M2)) (r00 (rMat ?M2)) * (1800 / M_PIf)))
               = lrintf (- atan2_approx (r10 (rMat ?M2)) (r00 (rMat ?M2)) * (1800 / M_PIf))"
    by (intro to_int16_id) simp_all
  then have y2: "values_yaw (attitude (imuCalculateEstimatedAttitude ?T1 gps_env 2000)) \<le> 450"
    unfolding t2 dt using yb
    by (simp add: imuUpdateEulerAngles_yaw_value imuUpdateEulerAngles_euler_def gps_env_fields Let_def)
  show ?thesis
    using ff1 y1 y2 by (simp add: g0 gps_env_fields filter_fields_def)
qed


end
